theory Spec2Isabelle
  imports Main "HOL-Library.Sublist" "HOL-Library.Multiset"
begin

section \<open>Colour themes\<close>

text \<open>
  Every screen declares a constant \<^verbatim>\<open>themes\<close> object. The field \<^verbatim>\<open>text\<close> of the source is
  called \<open>textPrimary\<close> here; every other field keeps its name. Colours are the strings of
  the source.
\<close>

record theme =
  background :: string
  surface :: string
  surfaceSecondary :: string
  textPrimary :: string
  textSecondary :: string
  accent :: string
  success :: string
  warning :: string
  error :: string
  border :: string

definition themes_dark :: theme where
  "themes_dark =
     \<lparr>background = ''#0a0a0a'', surface = ''#1a1a1a'', surfaceSecondary = ''#2a2a2a'',
      textPrimary = ''#ffffff'', textSecondary = ''#a0a0a0'', accent = ''#3b82f6'',
      success = ''#10b981'', warning = ''#f59e0b'', error = ''#ef4444'',
      border = ''#333333''\<rparr>"

definition themes_light :: theme where
  "themes_light =
     \<lparr>background = ''#ffffff'', surface = ''#f8f9fa'', surfaceSecondary = ''#e9ecef'',
      textPrimary = ''#1f2937'', textSecondary = ''#6b7280'', accent = ''#3b82f6'',
      success = ''#10b981'', warning = ''#f59e0b'', error = ''#ef4444'',
      border = ''#e5e7eb''\<rparr>"

text \<open>\<^verbatim>\<open>themes[isDarkMode ? 'dark' : 'light']\<close> of the catalog and profile screens.\<close>

definition themes :: "bool \<Rightarrow> theme" where
  "themes isDarkMode = (if isDarkMode then themes_dark else themes_light)"


section \<open>Data model\<close>

text \<open>
  The interfaces of the source as records. Field names that several interfaces share
  (\<^verbatim>\<open>id\<close>, \<^verbatim>\<open>name\<close>, \<^verbatim>\<open>description\<close>, \<^verbatim>\<open>status\<close>, \<^verbatim>\<open>notes\<close>, \<^verbatim>\<open>created_at\<close>) carry a prefix naming
  their interface; an optional field \<^verbatim>\<open>f?: T\<close> is a \<open>T option\<close>, \<open>None\<close> standing for
  \<^verbatim>\<open>undefined\<close>; a \<^verbatim>\<open>number\<close> that the backend sends as an integer is an \<open>int\<close>.
\<close>

record Task =
  task_id :: string
  task_title :: string
  task_description :: string
  task_type :: string
  task_url :: "string option"
  required :: bool

record Airdrop =
  a_id :: string
  a_name :: string
  a_description :: string
  blockchain :: string
  a_status :: string
  reward_amount :: "string option"
  reward_token :: "string option"
  deadline :: "string option"
  reputation_score :: int
  tasks :: "Task list"

record UserAirdropStatus =
  ua_id :: string
  user_id :: string
  airdrop_id :: string
  ua_status :: string
  completed_tasks :: "string list"
  progress_percentage :: int
  wallet_address :: "string option"
  eligibility_checked :: bool
  is_eligible :: "bool option"
  reminder_enabled :: bool
  ua_notes :: "string option"
  ua_created_at :: string
  updated_at :: string

record Preferences =
  pref_theme :: string
  notifications :: bool
  preferred_blockchains :: "string list"

record User =
  u_id :: string
  wallet_addresses :: "string list"
  daily_streak :: int
  total_points :: int
  last_checkin :: "string option"
  preferences :: Preferences
  u_created_at :: string


section \<open>Tracked-airdrops screen: derivations\<close>

text \<open>
  Component \<^verbatim>\<open>MyAirdrops\<close> (src/unnamed/part_000). Its \<^verbatim>\<open>theme\<close> is the constant
  \<^verbatim>\<open>themes.dark\<close>.
\<close>

definition MyAirdrops_theme :: theme where
  "MyAirdrops_theme = themes_dark"

text \<open>A \<^verbatim>\<open>switch\<close> on the status string; the \<^verbatim>\<open>default\<close> branch takes every other string.\<close>

definition MyAirdrops_getStatusColor :: "string \<Rightarrow> string" where
  "MyAirdrops_getStatusColor status =
     (if status = ''completed'' then success MyAirdrops_theme
      else if status = ''in_progress'' then warning MyAirdrops_theme
      else if status = ''not_started'' then textSecondary MyAirdrops_theme
      else textSecondary MyAirdrops_theme)"

definition getStatusIcon :: "string \<Rightarrow> string" where
  "getStatusIcon status =
     (if status = ''completed'' then ''checkmark-circle''
      else if status = ''in_progress'' then ''time''
      else if status = ''not_started'' then ''ellipse-outline''
      else ''ellipse-outline'')"

definition getProgressBarColor :: "int \<Rightarrow> string" where
  "getProgressBarColor percentage =
     (if percentage = 100 then success MyAirdrops_theme
      else if percentage \<ge> 50 then warning MyAirdrops_theme
      else accent MyAirdrops_theme)"

text \<open>
  \<^verbatim>\<open>filteredAirdrops\<close> is \<^verbatim>\<open>userAirdrops.filter(...)\<close> with the selected filter read from the
  component state; both are arguments here.
\<close>

definition MyAirdrops_filteredAirdrops ::
  "string \<Rightarrow> UserAirdropStatus list \<Rightarrow> UserAirdropStatus list" where
  "MyAirdrops_filteredAirdrops selectedFilter userAirdrops =
     filter (\<lambda>userAirdrop.
        if selectedFilter = ''all'' then True
        else ua_status userAirdrop = selectedFilter) userAirdrops"


section \<open>Catalog and detail screens: derivations\<close>

text \<open>
  Component \<^verbatim>\<open>Index\<close> (the second file of src/frontend/app/tabs/_layout.tsx) reads its theme
  from \<^verbatim>\<open>isDarkMode\<close>; component \<^verbatim>\<open>AirdropDetail\<close> (src/frontend/app/airdrop/[id].tsx) uses
  \<^verbatim>\<open>themes.dark\<close>.
\<close>

definition Index_getStatusColor :: "bool \<Rightarrow> string \<Rightarrow> string" where
  "Index_getStatusColor isDarkMode status =
     (if status = ''active'' then success (themes isDarkMode)
      else if status = ''upcoming'' then warning (themes isDarkMode)
      else if status = ''expired'' then error (themes isDarkMode)
      else textSecondary (themes isDarkMode))"

definition AirdropDetail_getStatusColor :: "string \<Rightarrow> string" where
  "AirdropDetail_getStatusColor status =
     (if status = ''active'' then success themes_dark
      else if status = ''upcoming'' then warning themes_dark
      else if status = ''expired'' then error themes_dark
      else textSecondary themes_dark)"

definition Index_filteredAirdrops :: "string \<Rightarrow> Airdrop list \<Rightarrow> Airdrop list" where
  "Index_filteredAirdrops selectedFilter airdrops =
     filter (\<lambda>airdrop.
        if selectedFilter = ''all'' then True
        else a_status airdrop = selectedFilter) airdrops"


section \<open>JavaScript values used by the screens\<close>

text \<open>
  Truthiness of an optional string (\<^verbatim>\<open>undefined\<close> and the empty string are falsy) and of
  an optional boolean, as \<^verbatim>\<open>!x\<close>, \<^verbatim>\<open>x && ...\<close>, \<^verbatim>\<open>x || ...\<close> and \<^verbatim>\<open>x ? a : b\<close> read them.
\<close>

definition truthy :: "string option \<Rightarrow> bool" where
  "truthy x = (case x of None \<Rightarrow> False | Some s \<Rightarrow> s \<noteq> [])"

definition truthy_bool :: "bool option \<Rightarrow> bool" where
  "truthy_bool x = (case x of None \<Rightarrow> False | Some b \<Rightarrow> b)"

text \<open>How JSX prints an optional string child: \<^verbatim>\<open>undefined\<close> prints nothing.\<close>

definition jsx_text :: "string option \<Rightarrow> string" where
  "jsx_text x = (case x of None \<Rightarrow> [] | Some s \<Rightarrow> s)"

text \<open>
  The decimal digits of a natural number and \<^verbatim>\<open>String(n)\<close> for an integer \<^verbatim>\<open>number\<close>
  (below the magnitude at which JavaScript switches to exponent notation).
\<close>

function decimal :: "nat \<Rightarrow> string" where
  "decimal n =
     (if n < 10 then [''0123456789'' ! n]
      else decimal (n div 10) @ [''0123456789'' ! (n mod 10)])"
  by pat_completeness auto
termination
  by (relation "measure id") auto

declare decimal.simps [simp del]

definition Number_toString :: "int \<Rightarrow> string" where
  "Number_toString n = (if n < 0 then CHR ''-'' # decimal (nat (- n)) else decimal (nat n))"

text \<open>
  Reading a string of decimal digits back as a number; it is used below to show that the
  decimal rendering loses nothing.
\<close>

definition digit_value :: "char \<Rightarrow> nat" where
  "digit_value c = of_char c - 48"

definition decimal_value :: "string \<Rightarrow> nat" where
  "decimal_value s = foldl (\<lambda>acc c. 10 * acc + digit_value c) 0 s"



section \<open>Tracked-airdrops screen: state and rendering\<close>

text \<open>
  The \<^verbatim>\<open>useState\<close> slots of \<^verbatim>\<open>MyAirdrops\<close>. \<^verbatim>\<open>airdropDetails\<close> is the plain object used as a
  dictionary from airdrop id to airdrop; the slot holds what has been stored in it, the
  last \<^verbatim>\<open>details[id] = data\<close> for each id. What a read \<^verbatim>\<open>airdropDetails[id]\<close> of that object
  yields is \<open>airdropDetails_get\<close> below.
\<close>

record MyAirdropsState =
  userAirdrops :: "UserAirdropStatus list"
  airdropDetails :: "string \<rightharpoonup> Airdrop"
  loading :: bool
  refreshing :: bool
  selectedFilter :: string

definition MyAirdrops_initial :: MyAirdropsState where
  "MyAirdrops_initial =
     \<lparr>userAirdrops = [], airdropDetails = Map.empty, loading = True, refreshing = False,
      selectedFilter = ''all''\<rparr>"

text \<open>
  What a card shows. The labels that only change letter case and the date formatting by
  \<^verbatim>\<open>toLocaleDateString\<close> are left as the strings they are computed from.
\<close>

record AirdropCard =
  card_key :: string
  card_target :: string
  card_title :: string
  card_blockchain :: string
  card_icon :: string
  card_color :: string
  card_progress :: int
  card_bar_color :: string
  card_tasks_done :: nat
  card_tasks_total :: nat
  card_status :: string
  card_eligibility :: "bool option"
  card_reminder :: bool
  card_reward :: "string option"
  card_deadline :: "string option"

text \<open>The element built by \<^verbatim>\<open>renderAirdropCard\<close> once the details are there.\<close>

definition airdropCard :: "UserAirdropStatus \<Rightarrow> Airdrop \<Rightarrow> AirdropCard" where
  "airdropCard userAirdrop airdrop =
     \<lparr>card_key = ua_id userAirdrop,
      card_target = ''/airdrop/'' @ airdrop_id userAirdrop,
      card_title = a_name airdrop,
      card_blockchain = blockchain airdrop,
      card_icon = getStatusIcon (ua_status userAirdrop),
      card_color = MyAirdrops_getStatusColor (ua_status userAirdrop),
      card_progress = progress_percentage userAirdrop,
      card_bar_color = getProgressBarColor (progress_percentage userAirdrop),
      card_tasks_done = length (completed_tasks userAirdrop),
      card_tasks_total = length (tasks airdrop),
      card_status = ua_status userAirdrop,
      card_eligibility =
        (if eligibility_checked userAirdrop then Some (truthy_bool (is_eligible userAirdrop))
         else None),
      card_reminder = reminder_enabled userAirdrop,
      card_reward =
        (if truthy (reward_amount airdrop) \<or> truthy (reward_token airdrop)
         then Some (jsx_text (reward_amount airdrop) @ '' '' @ jsx_text (reward_token airdrop))
         else None),
      card_deadline = (if truthy (deadline airdrop) then deadline airdrop else None)\<rparr>"

text \<open>
  Reading a property of the details object. The object is created as \<^verbatim>\<open>{}\<close>, so a name
  it has no entry for is looked up along its prototype chain. \<^verbatim>\<open>Object.prototype\<close> has the
  properties listed here (functions, and the accessor \<^verbatim>\<open>__proto__\<close>).
\<close>

definition Object_prototype_properties :: "string list" where
  "Object_prototype_properties =
     [''constructor'', ''__proto__'', ''hasOwnProperty'', ''isPrototypeOf'',
      ''propertyIsEnumerable'', ''toLocaleString'', ''toString'', ''valueOf'',
      ''__defineGetter__'', ''__defineSetter__'', ''__lookupGetter__'', ''__lookupSetter__'']"

text \<open>
  The value a read yields: \<^verbatim>\<open>undefined\<close>, an airdrop object, or some other value, of which
  only the truthiness matters (none of them has a \<^verbatim>\<open>blockchain\<close> property).
\<close>

datatype js_value = JsUndefined | JsAirdrop Airdrop | JsOther bool

text \<open>
  A property of an airdrop object as the backend sends it: its fields (an absent optional
  field is no property), then those of \<^verbatim>\<open>Object.prototype\<close>. Strings are truthy unless
  empty, numbers unless zero, arrays and functions always.
\<close>

definition Airdrop_get :: "Airdrop \<Rightarrow> string \<Rightarrow> js_value" where
  "Airdrop_get p k =
     (if k = ''id'' then JsOther (a_id p \<noteq> [])
      else if k = ''name'' then JsOther (a_name p \<noteq> [])
      else if k = ''description'' then JsOther (a_description p \<noteq> [])
      else if k = ''blockchain'' then JsOther (blockchain p \<noteq> [])
      else if k = ''status'' then JsOther (a_status p \<noteq> [])
      else if k = ''reward_amount'' \<and> reward_amount p \<noteq> None
        then JsOther (truthy (reward_amount p))
      else if k = ''reward_token'' \<and> reward_token p \<noteq> None
        then JsOther (truthy (reward_token p))
      else if k = ''deadline'' \<and> deadline p \<noteq> None then JsOther (truthy (deadline p))
      else if k = ''reputation_score'' then JsOther (reputation_score p \<noteq> 0)
      else if k = ''tasks'' then JsOther True
      else if k \<in> set Object_prototype_properties then JsOther True
      else JsUndefined)"

text \<open>
  \<^verbatim>\<open>airdropDetails[k]\<close>. An assignment to \<^verbatim>\<open>__proto__\<close> does not store an entry: it runs the
  setter of \<^verbatim>\<open>Object.prototype\<close>, which makes the assigned airdrop object the prototype of
  the details object, and a read of \<^verbatim>\<open>__proto__\<close> returns the prototype. Every other name is
  an own entry if one was stored, and is looked up in the prototype otherwise.
\<close>

definition airdropDetails_get :: "(string \<rightharpoonup> Airdrop) \<Rightarrow> string \<Rightarrow> js_value" where
  "airdropDetails_get details k =
     (if k = ''__proto__'' then
        (case details ''__proto__'' of
           Some p \<Rightarrow> JsAirdrop p
         | None \<Rightarrow> JsOther True)
      else
        (case details k of
           Some airdrop \<Rightarrow> JsAirdrop airdrop
         | None \<Rightarrow>
             (case details ''__proto__'' of
                Some p \<Rightarrow> Airdrop_get p k
              | None \<Rightarrow>
                  if k \<in> set Object_prototype_properties then JsOther True
                  else JsUndefined)))"

datatype js_error = TypeError

text \<open>
  \<^verbatim>\<open>const airdrop = airdropDetails[userAirdrop.airdrop_id]; if (!airdrop) return null;\<close>
  \<open>Inr None\<close> is the \<^verbatim>\<open>null\<close> element. A truthy value that is no airdrop passes the test,
  and building the card throws at \<^verbatim>\<open>airdrop.blockchain.toUpperCase()\<close>, since
  \<^verbatim>\<open>airdrop.blockchain\<close> is \<^verbatim>\<open>undefined\<close>.
\<close>

definition renderAirdropCard ::
  "(string \<rightharpoonup> Airdrop) \<Rightarrow> UserAirdropStatus \<Rightarrow> js_error + AirdropCard option" where
  "renderAirdropCard details userAirdrop =
     (case airdropDetails_get details (airdrop_id userAirdrop) of
        JsUndefined \<Rightarrow> Inr None
      | JsOther truthy_value \<Rightarrow> if truthy_value then Inl TypeError else Inr None
      | JsAirdrop airdrop \<Rightarrow> Inr (Some (airdropCard userAirdrop airdrop)))"

text \<open>The three numbers of the header's \<^verbatim>\<open>statsContainer\<close>.\<close>

record HeaderStats =
  stat_tracking :: nat
  stat_completed :: nat
  stat_in_progress :: nat

definition renderHeader :: "MyAirdropsState \<Rightarrow> HeaderStats" where
  "renderHeader st =
     \<lparr>stat_tracking = length (userAirdrops st),
      stat_completed = length (filter (\<lambda>ua. ua_status ua = ''completed'') (userAirdrops st)),
      stat_in_progress =
        length (filter (\<lambda>ua. ua_status ua = ''in_progress'') (userAirdrops st))\<rparr>"

text \<open>
  The list below the filters: the empty state (with the Explore button when the filter is
  \<^verbatim>\<open>all\<close>), or the section title's count and \<^verbatim>\<open>filteredAirdrops.map(renderAirdropCard)\<close>,
  here the outcome of \<^verbatim>\<open>renderAirdropCard\<close> for each element.
\<close>

datatype AirdropsList =
  EmptyContainer bool
| TrackedAirdrops nat "(js_error + AirdropCard option) list"

definition renderList :: "MyAirdropsState \<Rightarrow> AirdropsList" where
  "renderList st =
     (let filteredAirdrops = MyAirdrops_filteredAirdrops (selectedFilter st) (userAirdrops st)
      in if length filteredAirdrops = 0 then EmptyContainer (selectedFilter st = ''all'')
         else TrackedAirdrops (length filteredAirdrops)
                (map (renderAirdropCard (airdropDetails st)) filteredAirdrops))"

datatype MyAirdropsScreen =
  LoadingScreen
| AirdropsScreen HeaderStats AirdropsList

definition MyAirdrops_render :: "MyAirdropsState \<Rightarrow> MyAirdropsScreen" where
  "MyAirdrops_render st =
     (if loading st then LoadingScreen else AirdropsScreen (renderHeader st) (renderList st))"

text \<open>
  What comes of the outcomes: a call that throws makes the whole render throw; otherwise
  React draws nothing for a \<^verbatim>\<open>null\<close> child, and the rest are the cards on screen.
\<close>

definition shownCards :: "(js_error + AirdropCard option) list \<Rightarrow> js_error + AirdropCard list" where
  "shownCards elements =
     foldr (\<lambda>element rest.
        case element of
          Inl e \<Rightarrow> Inl e
        | Inr child \<Rightarrow>
            (case rest of
               Inl e \<Rightarrow> Inl e
             | Inr cards \<Rightarrow> Inr (case child of None \<Rightarrow> cards | Some c \<Rightarrow> c # cards)))
       elements (Inr [])"

text \<open>Pressing a filter chip: \<^verbatim>\<open>setSelectedFilter(filter)\<close>.\<close>

definition setSelectedFilter :: "string \<Rightarrow> MyAirdropsState \<Rightarrow> MyAirdropsState" where
  "setSelectedFilter f st = st\<lparr>selectedFilter := f\<rparr>"

text \<open>
  Modelled from the spec: the count of statuses that are \<^verbatim>\<open>not_started\<close>, which the spec's
  summary adds to the two counts of the header; the header of the source does not compute it.
\<close>

definition count_not_started :: "MyAirdropsState \<Rightarrow> nat" where
  "count_not_started st =
     length (filter (\<lambda>ua. ua_status ua = ''not_started'') (userAirdrops st))"


section \<open>Requests and their outcomes\<close>

text \<open>
  The backend is outside the repository: each \<^verbatim>\<open>await fetch(...)\<close> is given its outcome.
  The promise of \<^verbatim>\<open>fetch\<close> rejects (no response), never settles, or resolves with a
  response whose \<^verbatim>\<open>ok\<close> flag is set or not; \<^verbatim>\<open>await response.json()\<close> then rejects, never
  settles, or yields the parsed body.
\<close>

datatype 'a json = JsonRejects | JsonNever | Json 'a

datatype ('a, 'e) fetch = FetchRejects | FetchNever | Ok "'a json" | NotOk "'e json"

text \<open>What a handler does besides updating state: a line on the console, a dialog.\<close>

datatype effect = ConsoleError string | Alert string string

text \<open>
  An \<^verbatim>\<open>async\<close> function either runs to its end or stays suspended at an \<^verbatim>\<open>await\<close> for
  ever; both carry the component state and the effects so far.
\<close>

datatype 'st run = Finished 'st "effect list" | Hangs 'st "effect list"


section \<open>Tracked-airdrops screen: loading\<close>

text \<open>
  One mapper of \<^verbatim>\<open>data.map(async (userAirdrop) => ...)\<close>, resumed when its own request has
  settled: \<open>env i\<close> is the outcome of the request of the \<open>i\<close>-th element. It writes
  \<^verbatim>\<open>details[userAirdrop.airdrop_id]\<close> on success, logs in its own \<^verbatim>\<open>catch\<close> when the request
  or the body parse rejects, and does nothing on a response that is not OK.
\<close>

fun detailMapper ::
  "(nat \<Rightarrow> (Airdrop, 'e) fetch) \<Rightarrow> nat \<times> UserAirdropStatus \<Rightarrow>
   (string \<rightharpoonup> Airdrop) \<times> effect list \<Rightarrow> (string \<rightharpoonup> Airdrop) \<times> effect list" where
  "detailMapper env (i, userAirdrop) (details, log) =
     (case env i of
        FetchRejects \<Rightarrow> (details, log @ [ConsoleError ''Error fetching airdrop details:''])
      | FetchNever \<Rightarrow> (details, log)
      | Ok JsonRejects \<Rightarrow> (details, log @ [ConsoleError ''Error fetching airdrop details:''])
      | Ok JsonNever \<Rightarrow> (details, log)
      | Ok (Json airdropData) \<Rightarrow> (details(airdrop_id userAirdrop \<mapsto> airdropData), log)
      | NotOk _ \<Rightarrow> (details, log))"

text \<open>Whether a mapper's promise settles (it never rejects: its body is one \<^verbatim>\<open>try\<close>).\<close>

fun settles :: "('a, 'e) fetch \<Rightarrow> bool" where
  "settles FetchNever = False"
| "settles (Ok JsonNever) = False"
| "settles _ = True"

text \<open>
  The mappers all start at once and resume in the order in which their requests settle:
  \<open>delay i\<close> is the time the \<open>i\<close>-th request takes, ties resumed in list order.
\<close>

definition completionOrder ::
  "(nat \<Rightarrow> nat) \<Rightarrow> UserAirdropStatus list \<Rightarrow> (nat \<times> UserAirdropStatus) list" where
  "completionOrder delay data = sort_key (\<lambda>p. delay (fst p)) (enumerate 0 data)"

text \<open>
  \<^verbatim>\<open>loadUserAirdrops\<close>. \<^verbatim>\<open>Promise.all\<close> resolves once every mapper has settled, and only then
  are \<^verbatim>\<open>setAirdropDetails(details)\<close> and the \<^verbatim>\<open>finally\<close> block reached.
\<close>

definition loadUserAirdrops ::
  "(UserAirdropStatus list, 'e) fetch \<Rightarrow> (nat \<Rightarrow> (Airdrop, 'e) fetch) \<Rightarrow> (nat \<Rightarrow> nat) \<Rightarrow>
   MyAirdropsState \<Rightarrow> MyAirdropsState run" where
  "loadUserAirdrops response env delay st =
     (case response of
        FetchRejects \<Rightarrow>
          Finished (st\<lparr>loading := False\<rparr>) [ConsoleError ''Error fetching user airdrops:'']
      | FetchNever \<Rightarrow> Hangs st []
      | NotOk _ \<Rightarrow>
          Finished (st\<lparr>loading := False\<rparr>) [ConsoleError ''Failed to fetch user airdrops'']
      | Ok JsonRejects \<Rightarrow>
          Finished (st\<lparr>loading := False\<rparr>) [ConsoleError ''Error fetching user airdrops:'']
      | Ok JsonNever \<Rightarrow> Hangs st []
      | Ok (Json data) \<Rightarrow>
          (let st1 = st\<lparr>userAirdrops := data\<rparr>;
               order = completionOrder delay data;
               (details, log) = fold (detailMapper env) order (Map.empty, [])
           in if list_all (\<lambda>p. settles (env (fst p))) order
              then Finished (st1\<lparr>airdropDetails := details, loading := False\<rparr>) log
              else Hangs st1 log))"


section \<open>Profile screen\<close>

text \<open>The \<^verbatim>\<open>useState\<close> slots of \<^verbatim>\<open>Profile\<close> (src/unnamed/part_001).\<close>

record ProfileState =
  pr_user :: "User option"
  pr_loading :: bool
  pr_isDarkMode :: bool
  pr_notificationsEnabled :: bool

definition Profile_initial :: ProfileState where
  "Profile_initial =
     \<lparr>pr_user = None, pr_loading = True, pr_isDarkMode = True,
      pr_notificationsEnabled = True\<rparr>"

definition loadUserData :: "(User, 'e) fetch \<Rightarrow> ProfileState \<Rightarrow> ProfileState run" where
  "loadUserData response st =
     (case response of
        FetchRejects \<Rightarrow>
          Finished (st\<lparr>pr_loading := False\<rparr>) [ConsoleError ''Error loading user data:'']
      | FetchNever \<Rightarrow> Hangs st []
      | NotOk _ \<Rightarrow> Finished (st\<lparr>pr_loading := False\<rparr>) []
      | Ok JsonRejects \<Rightarrow>
          Finished (st\<lparr>pr_loading := False\<rparr>) [ConsoleError ''Error loading user data:'']
      | Ok JsonNever \<Rightarrow> Hangs st []
      | Ok (Json userData) \<Rightarrow>
          Finished (st\<lparr>pr_user := Some userData,
                       pr_isDarkMode := (pref_theme (preferences userData) = ''dark''),
                       pr_notificationsEnabled := (notifications (preferences userData) \<noteq> False),
                       pr_loading := False\<rparr>) [])"

text \<open>
  The body of a successful check-in and of a refused one
  (\<^verbatim>\<open>{points_earned, streak, total_points}\<close> or \<^verbatim>\<open>{message}\<close>).
\<close>

record CheckinResult =
  points_earned :: int
  streak :: int
  result_total_points :: int

record CheckinError =
  message :: "string option"

definition checkinAlert :: "CheckinResult \<Rightarrow> effect" where
  "checkinAlert result =
     Alert ''Check-in Successful!''
       (''You earned '' @ Number_toString (points_earned result) @ '' points!'' @
        [CHR 0x0A] @ ''Streak: '' @ Number_toString (streak result) @ '' days'' @
        [CHR 0x0A] @ ''Total Points: '' @ Number_toString (result_total_points result))"

text \<open>
  \<^verbatim>\<open>handleDailyCheckin\<close> of the profile screen; \<open>now\<close> is \<^verbatim>\<open>new Date().toISOString()\<close> at the
  moment of the update. The updater of \<^verbatim>\<open>setUser\<close> keeps \<^verbatim>\<open>null\<close> as it is. The title
  of the success dialog is written without the emoji that ends it in the source.
\<close>

definition Profile_handleDailyCheckin ::
  "(CheckinResult, CheckinError) fetch \<Rightarrow> string \<Rightarrow> ProfileState \<Rightarrow> ProfileState run" where
  "Profile_handleDailyCheckin response now st =
     (case response of
        FetchRejects \<Rightarrow>
          Finished st [ConsoleError ''Error during checkin:'',
                       Alert ''Error'' ''Failed to complete check-in'']
      | FetchNever \<Rightarrow> Hangs st []
      | Ok JsonRejects \<Rightarrow>
          Finished st [ConsoleError ''Error during checkin:'',
                       Alert ''Error'' ''Failed to complete check-in'']
      | Ok JsonNever \<Rightarrow> Hangs st []
      | Ok (Json result) \<Rightarrow>
          Finished
            (st\<lparr>pr_user :=
                  (case pr_user st of
                     Some prev \<Rightarrow>
                       Some (prev\<lparr>total_points := result_total_points result,
                                   daily_streak := streak result,
                                   last_checkin := Some now\<rparr>)
                   | None \<Rightarrow> None)\<rparr>)
            [checkinAlert result]
      | NotOk JsonRejects \<Rightarrow>
          Finished st [ConsoleError ''Error during checkin:'',
                       Alert ''Error'' ''Failed to complete check-in'']
      | NotOk JsonNever \<Rightarrow> Hangs st []
      | NotOk (Json err) \<Rightarrow>
          Finished st
            [Alert ''Check-in Failed''
               (if truthy (message err) then jsx_text (message err)
                else ''Something went wrong'')])"


section \<open>Catalog screen\<close>

text \<open>The \<^verbatim>\<open>useState\<close> slots of \<^verbatim>\<open>Index\<close>.\<close>

record IndexState =
  ix_isDarkMode :: bool
  ix_airdrops :: "Airdrop list"
  ix_user :: "User option"
  ix_loading :: bool
  ix_refreshing :: bool
  ix_selectedFilter :: string
  ix_showCheckinModal :: bool

definition Index_initial :: IndexState where
  "Index_initial =
     \<lparr>ix_isDarkMode = True, ix_airdrops = [], ix_user = None, ix_loading = True,
      ix_refreshing = False, ix_selectedFilter = ''all'', ix_showCheckinModal = False\<rparr>"

definition fetchAirdrops :: "(Airdrop list, 'e) fetch \<Rightarrow> IndexState \<Rightarrow> IndexState run" where
  "fetchAirdrops response st =
     (case response of
        FetchRejects \<Rightarrow> Finished st [ConsoleError ''Error fetching airdrops:'']
      | FetchNever \<Rightarrow> Hangs st []
      | NotOk _ \<Rightarrow> Finished st [ConsoleError ''Failed to fetch airdrops'']
      | Ok JsonRejects \<Rightarrow> Finished st [ConsoleError ''Error fetching airdrops:'']
      | Ok JsonNever \<Rightarrow> Hangs st []
      | Ok (Json data) \<Rightarrow> Finished (st\<lparr>ix_airdrops := data\<rparr>) [])"

definition fetchUser :: "(User, 'e) fetch \<Rightarrow> IndexState \<Rightarrow> IndexState run" where
  "fetchUser response st =
     (case response of
        FetchRejects \<Rightarrow> Finished st [ConsoleError ''Error fetching user:'']
      | FetchNever \<Rightarrow> Hangs st []
      | NotOk _ \<Rightarrow> Finished st []
      | Ok JsonRejects \<Rightarrow> Finished st [ConsoleError ''Error fetching user:'']
      | Ok JsonNever \<Rightarrow> Hangs st []
      | Ok (Json data) \<Rightarrow> Finished (st\<lparr>ix_user := Some data\<rparr>) [])"

text \<open>
  \<^verbatim>\<open>await Promise.all([fetchAirdrops(), fetchUser()]); setLoading(false);\<close> The two write
  different slots; the effects are listed with those of \<^verbatim>\<open>fetchAirdrops\<close> first.
\<close>

definition loadInitialData ::
  "(Airdrop list, 'e) fetch \<Rightarrow> (User, 'e) fetch \<Rightarrow> IndexState \<Rightarrow> IndexState run" where
  "loadInitialData airdropsResponse userResponse st =
     (case fetchAirdrops airdropsResponse st of
        Finished st1 log1 \<Rightarrow>
          (case fetchUser userResponse st1 of
             Finished st2 log2 \<Rightarrow> Finished (st2\<lparr>ix_loading := False\<rparr>) (log1 @ log2)
           | Hangs st2 log2 \<Rightarrow> Hangs st2 (log1 @ log2))
      | Hangs st1 log1 \<Rightarrow>
          (case fetchUser userResponse st1 of
             Finished st2 log2 \<Rightarrow> Hangs st2 (log1 @ log2)
           | Hangs st2 log2 \<Rightarrow> Hangs st2 (log1 @ log2)))"

text \<open>\<^verbatim>\<open>handleDailyCheckin\<close> of the catalog screen: its updater sets two fields.\<close>

definition Index_handleDailyCheckin ::
  "(CheckinResult, CheckinError) fetch \<Rightarrow> IndexState \<Rightarrow> IndexState run" where
  "Index_handleDailyCheckin response st =
     (case response of
        FetchRejects \<Rightarrow>
          Finished st [ConsoleError ''Error during checkin:'',
                       Alert ''Error'' ''Failed to complete check-in'']
      | FetchNever \<Rightarrow> Hangs st []
      | Ok JsonRejects \<Rightarrow>
          Finished st [ConsoleError ''Error during checkin:'',
                       Alert ''Error'' ''Failed to complete check-in'']
      | Ok JsonNever \<Rightarrow> Hangs st []
      | Ok (Json result) \<Rightarrow>
          Finished
            (st\<lparr>ix_user :=
                  (case ix_user st of
                     Some prev \<Rightarrow>
                       Some (prev\<lparr>total_points := result_total_points result,
                                   daily_streak := streak result\<rparr>)
                   | None \<Rightarrow> None)\<rparr>)
            [checkinAlert result]
      | NotOk JsonRejects \<Rightarrow>
          Finished st [ConsoleError ''Error during checkin:'',
                       Alert ''Error'' ''Failed to complete check-in'']
      | NotOk JsonNever \<Rightarrow> Hangs st []
      | NotOk (Json err) \<Rightarrow>
          Finished st
            [Alert ''Check-in Failed''
               (if truthy (message err) then jsx_text (message err)
                else ''Something went wrong'')])"


section \<open>Detail screen\<close>

text \<open>
  The \<^verbatim>\<open>useState\<close> slots of \<^verbatim>\<open>AirdropDetail\<close> that its loaders touch; the slots of the
  eligibility dialog are outside this development.
\<close>

record AirdropDetailState =
  ad_airdrop :: "Airdrop option"
  ad_loading :: bool
  ad_completedTasks :: "string list"
  ad_tracking :: bool

definition AirdropDetail_initial :: AirdropDetailState where
  "AirdropDetail_initial =
     \<lparr>ad_airdrop = None, ad_loading = True, ad_completedTasks = [], ad_tracking = False\<rparr>"

definition fetchAirdropDetails ::
  "(Airdrop, 'e) fetch \<Rightarrow> AirdropDetailState \<Rightarrow> AirdropDetailState run" where
  "fetchAirdropDetails response st =
     (case response of
        FetchRejects \<Rightarrow>
          Finished (st\<lparr>ad_loading := False\<rparr>)
            [ConsoleError ''Error fetching airdrop:'', Alert ''Error'' ''Network error occurred'']
      | FetchNever \<Rightarrow> Hangs st []
      | NotOk _ \<Rightarrow>
          Finished (st\<lparr>ad_loading := False\<rparr>)
            [Alert ''Error'' ''Failed to load airdrop details'']
      | Ok JsonRejects \<Rightarrow>
          Finished (st\<lparr>ad_loading := False\<rparr>)
            [ConsoleError ''Error fetching airdrop:'', Alert ''Error'' ''Network error occurred'']
      | Ok JsonNever \<Rightarrow> Hangs st []
      | Ok (Json data) \<Rightarrow> Finished (st\<lparr>ad_airdrop := Some data, ad_loading := False\<rparr>) [])"


section \<open>Dates\<close>

text \<open>
  \<^verbatim>\<open>Date\<close> is a built-in of the language, modelled after its standard (ECMAScript, Date
  objects). A time value is a whole number of milliseconds since 1970-01-01T00:00:00Z, or
  \<^verbatim>\<open>NaN\<close> for an invalid date (\<open>None\<close>). The day arithmetic follows the standard's
  definitions by name.
\<close>

type_synonym Date = "int option"

definition msPerDay :: int where
  "msPerDay = 86400000"

definition Day :: "int \<Rightarrow> int" where
  "Day t = t div msPerDay"

definition DaysInYear :: "int \<Rightarrow> int" where
  "DaysInYear y =
     (if y mod 4 \<noteq> 0 then 365
      else if y mod 100 \<noteq> 0 then 366
      else if y mod 400 \<noteq> 0 then 365
      else 366)"

definition DayFromYear :: "int \<Rightarrow> int" where
  "DayFromYear y =
     365 * (y - 1970) + (y - 1969) div 4 - (y - 1901) div 100 + (y - 1601) div 400"

definition TimeFromYear :: "int \<Rightarrow> int" where
  "TimeFromYear y = msPerDay * DayFromYear y"

text \<open>
  The standard defines \<^verbatim>\<open>YearFromTime(t)\<close> as the largest \<open>y\<close> with
  \<open>TimeFromYear y \<le> t\<close>. It is computed here from an estimate that is off by at most one
  year; lemma \<open>YearFromTime_largest\<close> below shows that this is the year of the standard.
\<close>

definition YearFromTime :: "int \<Rightarrow> int" where
  "YearFromTime t =
     (let d = Day t; y = 1970 + (400 * d) div 146097
      in if DayFromYear (y + 1) \<le> d then y + 1
         else if DayFromYear y \<le> d then y
         else y - 1)"

definition InLeapYear :: "int \<Rightarrow> int" where
  "InLeapYear t = (if DaysInYear (YearFromTime t) = 366 then 1 else 0)"

definition DayWithinYear :: "int \<Rightarrow> int" where
  "DayWithinYear t = Day t - DayFromYear (YearFromTime t)"

definition MonthFromTime :: "int \<Rightarrow> int" where
  "MonthFromTime t =
     (let d = DayWithinYear t; leap = InLeapYear t
      in if d < 31 then 0
         else if d < 59 + leap then 1
         else if d < 90 + leap then 2
         else if d < 120 + leap then 3
         else if d < 151 + leap then 4
         else if d < 181 + leap then 5
         else if d < 212 + leap then 6
         else if d < 243 + leap then 7
         else if d < 273 + leap then 8
         else if d < 304 + leap then 9
         else if d < 334 + leap then 10
         else 11)"

definition DateFromTime :: "int \<Rightarrow> int" where
  "DateFromTime t =
     (let d = DayWithinYear t; leap = InLeapYear t; m = MonthFromTime t
      in if m = 0 then d + 1
         else if m = 1 then d - 30
         else if m = 2 then d - 58 - leap
         else if m = 3 then d - 89 - leap
         else if m = 4 then d - 119 - leap
         else if m = 5 then d - 150 - leap
         else if m = 6 then d - 180 - leap
         else if m = 7 then d - 211 - leap
         else if m = 8 then d - 242 - leap
         else if m = 9 then d - 272 - leap
         else if m = 10 then d - 303 - leap
         else d - 333 - leap)"

definition WeekDay :: "int \<Rightarrow> int" where
  "WeekDay t = (Day t + 4) mod 7"

text \<open>
  The offset of local time is the host's: \<open>LocalTZA t\<close> is the offset in milliseconds in
  force at the time value \<open>t\<close> (it changes with daylight saving time).
\<close>

definition LocalTime :: "(int \<Rightarrow> int) \<Rightarrow> int \<Rightarrow> int" where
  "LocalTime LocalTZA t = t + LocalTZA t"

definition ToZeroPaddedDecimalString :: "nat \<Rightarrow> nat \<Rightarrow> string" where
  "ToZeroPaddedDecimalString n minLength =
     replicate (minLength - length (decimal n)) CHR ''0'' @ decimal n"

definition weekdayName :: "int \<Rightarrow> string" where
  "weekdayName w = [''Sun'', ''Mon'', ''Tue'', ''Wed'', ''Thu'', ''Fri'', ''Sat''] ! nat w"

definition monthName :: "int \<Rightarrow> string" where
  "monthName m =
     [''Jan'', ''Feb'', ''Mar'', ''Apr'', ''May'', ''Jun'',
      ''Jul'', ''Aug'', ''Sep'', ''Oct'', ''Nov'', ''Dec''] ! nat m"

definition DateString :: "int \<Rightarrow> string" where
  "DateString tv =
     (let yv = YearFromTime tv
      in weekdayName (WeekDay tv) @ '' '' @ monthName (MonthFromTime tv) @ '' '' @
         ToZeroPaddedDecimalString (nat (DateFromTime tv)) 2 @ '' '' @
         (if yv \<ge> 0 then [] else ''-'') @ ToZeroPaddedDecimalString (nat \<bar>yv\<bar>) 4)"

definition toDateString :: "(int \<Rightarrow> int) \<Rightarrow> Date \<Rightarrow> string" where
  "toDateString LocalTZA date =
     (case date of
        None \<Rightarrow> ''Invalid Date''
      | Some tv \<Rightarrow> DateString (LocalTime LocalTZA tv))"

text \<open>
  The calendar date, in local time, on which a time value falls: year, month (0 to 11) and
  day of the month.
\<close>

definition localDate :: "(int \<Rightarrow> int) \<Rightarrow> int \<Rightarrow> int \<times> int \<times> int" where
  "localDate LocalTZA tv =
     (let t = LocalTime LocalTZA tv in (YearFromTime t, MonthFromTime t, DateFromTime t))"

text \<open>
  \<^verbatim>\<open>canCheckinToday\<close> of the profile screen. It reads the \<^verbatim>\<open>user\<close> slot and the clock:
  \<open>Date_parse\<close> is the parser behind \<^verbatim>\<open>new Date(string)\<close>, \<open>now\<close> the time value of
  \<^verbatim>\<open>new Date()\<close>. \<^verbatim>\<open>!user?.last_checkin\<close> holds for no user, for no last check-in and
  for the empty string.
\<close>

definition canCheckinToday ::
  "(string \<Rightarrow> Date) \<Rightarrow> (int \<Rightarrow> int) \<Rightarrow> int \<Rightarrow> User option \<Rightarrow> bool" where
  "canCheckinToday Date_parse LocalTZA now user =
     (case user of
        None \<Rightarrow> True
      | Some u \<Rightarrow>
          (case last_checkin u of
             None \<Rightarrow> True
           | Some s \<Rightarrow>
               if s = [] then True
               else (let lastCheckin = Date_parse s;
                         today = Some now
                     in toDateString LocalTZA lastCheckin \<noteq> toDateString LocalTZA today)))"


section \<open>Example data\<close>

text \<open>Records as the backend sends them, used by the worked examples below.\<close>

definition example_status :: "string \<Rightarrow> string \<Rightarrow> string \<Rightarrow> int \<Rightarrow> UserAirdropStatus" where
  "example_status i a s p =
     \<lparr>ua_id = i, user_id = ''user_123'', airdrop_id = a, ua_status = s,
      completed_tasks = [''t1''], progress_percentage = p, wallet_address = None,
      eligibility_checked = False, is_eligible = None, reminder_enabled = False,
      ua_notes = None, ua_created_at = ''2024-01-01T00:00:00.000Z'',
      updated_at = ''2024-01-01T00:00:00.000Z''\<rparr>"

definition example_airdrop :: "string \<Rightarrow> string \<Rightarrow> Airdrop" where
  "example_airdrop i s =
     \<lparr>a_id = i, a_name = ''Example'', a_description = ''An example airdrop'',
      blockchain = ''ethereum'', a_status = s, reward_amount = Some ''100'',
      reward_token = Some ''USDC'', deadline = None, reputation_score = 80, tasks = []\<rparr>"

definition example_user :: User where
  "example_user =
     \<lparr>u_id = ''user_123'', wallet_addresses = [''0xabc''], daily_streak = 2,
      total_points = 100, last_checkin = None,
      preferences = \<lparr>pref_theme = ''dark'', notifications = True,
                       preferred_blockchains = [''ethereum'']\<rparr>,
      u_created_at = ''2023-12-01T00:00:00.000Z''\<rparr>"

definition example_result :: CheckinResult where
  "example_result = \<lparr>points_earned = 10, streak = 3, result_total_points = 110\<rparr>"


section \<open>Progress colour\<close>

text \<open>
  Claim C2. \<^verbatim>\<open>getProgressBarColor\<close> is a function of the percentage alone. For every integer
  percentage of at most 100 (so for every percentage from 0 to 100) it returns the colour
  of the complete tier, \<^verbatim>\<open>theme.success\<close>, exactly when the percentage is 100, the colour of
  the warn tier, \<^verbatim>\<open>theme.warning\<close>, exactly when the percentage is at least 50 and below
  100, and the default colour, \<^verbatim>\<open>theme.accent\<close>, exactly when it is below 50; at 49, 50, 99
  and 100 it returns default, warn, warn and complete.
\<close>

theorem getProgressBarColor_tiers:
  fixes percentage :: int
  assumes "percentage \<le> 100"
  shows "(getProgressBarColor percentage = success MyAirdrops_theme \<longleftrightarrow> percentage = 100) \<and>
         (getProgressBarColor percentage = warning MyAirdrops_theme \<longleftrightarrow>
            50 \<le> percentage \<and> percentage < 100) \<and>
         (getProgressBarColor percentage = accent MyAirdrops_theme \<longleftrightarrow> percentage < 50) \<and>
         getProgressBarColor 49 = accent MyAirdrops_theme \<and>
         getProgressBarColor 50 = warning MyAirdrops_theme \<and>
         getProgressBarColor 99 = warning MyAirdrops_theme \<and>
         getProgressBarColor 100 = success MyAirdrops_theme"
  using assms by (simp add: getProgressBarColor_def MyAirdrops_theme_def themes_dark_def)

theorem getProgressBarColor_tiers_witness:
  "(60::int) \<le> 100 \<and> getProgressBarColor 60 = warning MyAirdrops_theme \<and>
   getProgressBarColor 60 \<noteq> success MyAirdrops_theme \<and>
   getProgressBarColor 60 \<noteq> accent MyAirdrops_theme"
  using getProgressBarColor_tiers [of 60]
  by (simp add: MyAirdrops_theme_def themes_dark_def)


section \<open>Status colours and icons\<close>

text \<open>
  Claim C7. The mappings from a status string to a colour and to an icon give a result for
  every string: the colour and the icon are always among those of the screen's table, and a
  string that is none of the recognised values gets the secondary text colour
  (\<^verbatim>\<open>theme.textSecondary\<close>) and the outline icon. This holds for the tracked-airdrops screen
  (tracking status) and for the catalog and detail screens (lifecycle status).
\<close>

theorem status_colors_total:
  "(status \<notin> {''completed'', ''in_progress'', ''not_started''} \<longrightarrow>
      MyAirdrops_getStatusColor status = textSecondary MyAirdrops_theme \<and>
      getStatusIcon status = ''ellipse-outline'') \<and>
   MyAirdrops_getStatusColor status \<in>
     {success MyAirdrops_theme, warning MyAirdrops_theme, textSecondary MyAirdrops_theme} \<and>
   getStatusIcon status \<in> {''checkmark-circle'', ''time'', ''ellipse-outline''} \<and>
   (status \<notin> {''active'', ''upcoming'', ''expired''} \<longrightarrow>
      Index_getStatusColor isDarkMode status = textSecondary (themes isDarkMode) \<and>
      AirdropDetail_getStatusColor status = textSecondary themes_dark) \<and>
   Index_getStatusColor isDarkMode status \<in>
     {success (themes isDarkMode), warning (themes isDarkMode), error (themes isDarkMode),
      textSecondary (themes isDarkMode)} \<and>
   AirdropDetail_getStatusColor status \<in>
     {success themes_dark, warning themes_dark, error themes_dark, textSecondary themes_dark}"
  by (simp add: MyAirdrops_getStatusColor_def getStatusIcon_def Index_getStatusColor_def
      AirdropDetail_getStatusColor_def)

theorem status_colors_total_witness:
  "''paused'' \<notin> {''completed'', ''in_progress'', ''not_started''} \<and>
   ''paused'' \<notin> {''active'', ''upcoming'', ''expired''} \<and>
   MyAirdrops_getStatusColor ''paused'' = ''#a0a0a0'' \<and>
   getStatusIcon ''paused'' = ''ellipse-outline'' \<and>
   Index_getStatusColor False ''paused'' = ''#6b7280'' \<and>
   AirdropDetail_getStatusColor ''paused'' = ''#a0a0a0''"
  using status_colors_total [of "''paused''" False]
  by (simp add: MyAirdrops_theme_def themes_def themes_dark_def themes_light_def)


section \<open>Status filters\<close>

text \<open>
  Claim C5. With the filter \<^verbatim>\<open>all\<close> the filtered list is the input list; with any other
  filter value every element of the result has that value as its status; and the result
  is a subsequence of the input, so the order of the input is kept. This holds for the
  tracked-airdrops screen (tracking status) and the catalog screen (lifecycle status).
\<close>

theorem filteredAirdrops_filter:
  "MyAirdrops_filteredAirdrops ''all'' uas = uas \<and>
   (f \<noteq> ''all'' \<longrightarrow>
      (\<forall>ua \<in> set (MyAirdrops_filteredAirdrops f uas). ua_status ua = f)) \<and>
   subseq (MyAirdrops_filteredAirdrops f uas) uas \<and>
   Index_filteredAirdrops ''all'' airdrops = airdrops \<and>
   (f \<noteq> ''all'' \<longrightarrow> (\<forall>a \<in> set (Index_filteredAirdrops f airdrops). a_status a = f)) \<and>
   subseq (Index_filteredAirdrops f airdrops) airdrops"
  by (simp add: MyAirdrops_filteredAirdrops_def Index_filteredAirdrops_def)

theorem filteredAirdrops_filter_witness:
  "''completed'' \<noteq> ''all'' \<and>
   list_all (\<lambda>ua. ua_status ua = ''completed'')
     (MyAirdrops_filteredAirdrops ''completed''
        [example_status ''u1'' ''a1'' ''in_progress'' 60,
         example_status ''u2'' ''a2'' ''completed'' 100,
         example_status ''u3'' ''a3'' ''completed'' 100]) \<and>
   MyAirdrops_filteredAirdrops ''completed''
     [example_status ''u1'' ''a1'' ''in_progress'' 60,
      example_status ''u2'' ''a2'' ''completed'' 100,
      example_status ''u3'' ''a3'' ''completed'' 100] =
     [example_status ''u2'' ''a2'' ''completed'' 100,
      example_status ''u3'' ''a3'' ''completed'' 100] \<and>
   list_all (\<lambda>a. a_status a = ''active'')
     (Index_filteredAirdrops ''active''
        [example_airdrop ''a1'' ''active'', example_airdrop ''a2'' ''expired'']) \<and>
   Index_filteredAirdrops ''active''
     [example_airdrop ''a1'' ''active'', example_airdrop ''a2'' ''expired''] =
     [example_airdrop ''a1'' ''active'']"
proof -
  let ?uas = "[example_status ''u1'' ''a1'' ''in_progress'' 60,
      example_status ''u2'' ''a2'' ''completed'' 100,
      example_status ''u3'' ''a3'' ''completed'' 100]"
  let ?as = "[example_airdrop ''a1'' ''active'', example_airdrop ''a2'' ''expired'']"
  have c: "''completed'' \<noteq> ''all''" and a: "''active'' \<noteq> ''all''"
    by simp_all
  have 1: "list_all (\<lambda>ua. ua_status ua = ''completed'')
             (MyAirdrops_filteredAirdrops ''completed'' ?uas)"
    using filteredAirdrops_filter [of ?uas "''completed''" ?as] c
    unfolding list_all_iff by blast
  have 2: "list_all (\<lambda>a. a_status a = ''active'') (Index_filteredAirdrops ''active'' ?as)"
    using filteredAirdrops_filter [of ?uas "''active''" ?as] a
    unfolding list_all_iff by blast
  have 3: "MyAirdrops_filteredAirdrops ''completed'' ?uas =
     [example_status ''u2'' ''a2'' ''completed'' 100,
      example_status ''u3'' ''a3'' ''completed'' 100]"
    by (simp add: MyAirdrops_filteredAirdrops_def example_status_def)
  have 4: "Index_filteredAirdrops ''active'' ?as = [example_airdrop ''a1'' ''active'']"
    by (simp add: Index_filteredAirdrops_def example_airdrop_def)
  from c 1 2 3 4 show ?thesis by blast
qed


section \<open>Header statistics\<close>

lemma length_filter_partition4:
  "length (filter (\<lambda>x. f x = a) xs) + length (filter (\<lambda>x. f x = b) xs) +
   length (filter (\<lambda>x. f x = c) xs) + length (filter (\<lambda>x. f x \<notin> {a, b, c}) xs) =
   length xs"
  if "a \<noteq> b" "a \<noteq> c" "b \<noteq> c"
  using that by (induction xs) auto

lemma length_filter_eq_length_iff:
  "length (filter P xs) = 0 \<longleftrightarrow> (\<forall>x \<in> set xs. \<not> P x)"
  by (induction xs) auto

text \<open>
  Claim C4, as amended. The header's total is the number of tracked statuses, and the
  completed and in-progress counts together never exceed it. Together with the count of
  \<^verbatim>\<open>not_started\<close> statuses and the count of statuses that are none of the three values they
  add up to the total; so the three counts alone add up to the total exactly when every
  status is \<^verbatim>\<open>completed\<close>, \<^verbatim>\<open>in_progress\<close> or \<^verbatim>\<open>not_started\<close>.
\<close>

theorem summary_counts:
  "stat_tracking (renderHeader st) = length (userAirdrops st) \<and>
   stat_completed (renderHeader st) + stat_in_progress (renderHeader st)
     \<le> length (userAirdrops st) \<and>
   stat_completed (renderHeader st) + stat_in_progress (renderHeader st) +
     count_not_started st +
     length (filter (\<lambda>ua. ua_status ua \<notin> {''completed'', ''in_progress'', ''not_started''})
               (userAirdrops st)) = stat_tracking (renderHeader st) \<and>
   (stat_completed (renderHeader st) + stat_in_progress (renderHeader st) +
      count_not_started st = stat_tracking (renderHeader st)
    \<longleftrightarrow> (\<forall>ua \<in> set (userAirdrops st).
           ua_status ua \<in> {''completed'', ''in_progress'', ''not_started''}))"
proof -
  let ?xs = "userAirdrops st"
  let ?c = "length (filter (\<lambda>ua. ua_status ua = ''completed'') ?xs)"
  let ?i = "length (filter (\<lambda>ua. ua_status ua = ''in_progress'') ?xs)"
  let ?n = "length (filter (\<lambda>ua. ua_status ua = ''not_started'') ?xs)"
  let ?o = "length (filter (\<lambda>ua. ua_status ua \<notin> {''completed'', ''in_progress'', ''not_started''}) ?xs)"
  have part: "?c + ?i + ?n + ?o = length ?xs"
    by (rule length_filter_partition4) simp_all
  have other: "?o = 0 \<longleftrightarrow>
      (\<forall>ua \<in> set ?xs. ua_status ua \<in> {''completed'', ''in_progress'', ''not_started''})"
    unfolding length_filter_eq_length_iff by blast
  have eq: "?c + ?i + ?n = length ?xs \<longleftrightarrow> ?o = 0"
    using part by linarith
  have le: "?c + ?i \<le> length ?xs"
    using part by linarith
  show ?thesis
    unfolding renderHeader_def count_not_started_def
    using part le eq other by simp
qed

theorem summary_counts_witness:
  "list_all (\<lambda>ua. ua_status ua \<in> {''completed'', ''in_progress'', ''not_started''})
     (userAirdrops (MyAirdrops_initial\<lparr>userAirdrops :=
        [example_status ''u1'' ''a1'' ''in_progress'' 60,
         example_status ''u2'' ''a2'' ''not_started'' 0]\<rparr>)) \<and>
   stat_completed (renderHeader (MyAirdrops_initial\<lparr>userAirdrops :=
        [example_status ''u1'' ''a1'' ''in_progress'' 60,
         example_status ''u2'' ''a2'' ''not_started'' 0]\<rparr>)) +
   stat_in_progress (renderHeader (MyAirdrops_initial\<lparr>userAirdrops :=
        [example_status ''u1'' ''a1'' ''in_progress'' 60,
         example_status ''u2'' ''a2'' ''not_started'' 0]\<rparr>)) +
   count_not_started (MyAirdrops_initial\<lparr>userAirdrops :=
        [example_status ''u1'' ''a1'' ''in_progress'' 60,
         example_status ''u2'' ''a2'' ''not_started'' 0]\<rparr>) =
   stat_tracking (renderHeader (MyAirdrops_initial\<lparr>userAirdrops :=
        [example_status ''u1'' ''a1'' ''in_progress'' 60,
         example_status ''u2'' ''a2'' ''not_started'' 0]\<rparr>))"
proof -
  let ?st = "MyAirdrops_initial\<lparr>userAirdrops :=
        [example_status ''u1'' ''a1'' ''in_progress'' 60,
         example_status ''u2'' ''a2'' ''not_started'' 0]\<rparr>"
  have h: "\<forall>ua \<in> set (userAirdrops ?st).
             ua_status ua \<in> {''completed'', ''in_progress'', ''not_started''}"
    by (simp add: example_status_def)
  with summary_counts [of ?st] show ?thesis
    unfolding list_all_iff by blast
qed

text \<open>
  The claim as stated, for any status string: one tracked status \<^verbatim>\<open>paused\<close> gives the three
  counts 0 and the total 1.
\<close>

theorem summary_partition_counterexample:
  "stat_completed (renderHeader (MyAirdrops_initial\<lparr>userAirdrops :=
        [example_status ''u1'' ''a1'' ''paused'' 10]\<rparr>)) +
   stat_in_progress (renderHeader (MyAirdrops_initial\<lparr>userAirdrops :=
        [example_status ''u1'' ''a1'' ''paused'' 10]\<rparr>)) +
   count_not_started (MyAirdrops_initial\<lparr>userAirdrops :=
        [example_status ''u1'' ''a1'' ''paused'' 10]\<rparr>) = 0 \<and>
   stat_tracking (renderHeader (MyAirdrops_initial\<lparr>userAirdrops :=
        [example_status ''u1'' ''a1'' ''paused'' 10]\<rparr>)) = 1"
  by (simp add: renderHeader_def count_not_started_def example_status_def)

text \<open>
  Claim C10. The three numbers of the header are computed from the whole list of tracked
  statuses: selecting a filter leaves them as they are, so any two filter selections over
  the same data show the same numbers; the header of the rendered screen is that of the
  unfiltered state.
\<close>

theorem header_independent_of_filter:
  "renderHeader (setSelectedFilter f st) = renderHeader (setSelectedFilter g st) \<and>
   renderHeader (setSelectedFilter f st) = renderHeader st \<and>
   (case MyAirdrops_render (setSelectedFilter f st) of
      LoadingScreen \<Rightarrow> loading st
    | AirdropsScreen header cards \<Rightarrow> header = renderHeader st)"
  by (simp add: renderHeader_def setSelectedFilter_def MyAirdrops_render_def)

text \<open>The list below the header does change with the filter.\<close>

theorem header_independent_of_filter_witness:
  "renderHeader (setSelectedFilter ''completed''
     (MyAirdrops_initial\<lparr>userAirdrops :=
        [example_status ''u1'' ''a1'' ''in_progress'' 60,
         example_status ''u2'' ''a2'' ''completed'' 100], loading := False\<rparr>)) =
   renderHeader (setSelectedFilter ''all''
     (MyAirdrops_initial\<lparr>userAirdrops :=
        [example_status ''u1'' ''a1'' ''in_progress'' 60,
         example_status ''u2'' ''a2'' ''completed'' 100], loading := False\<rparr>)) \<and>
   renderList (setSelectedFilter ''completed''
     (MyAirdrops_initial\<lparr>userAirdrops :=
        [example_status ''u1'' ''a1'' ''in_progress'' 60,
         example_status ''u2'' ''a2'' ''completed'' 100], loading := False\<rparr>)) \<noteq>
   renderList (setSelectedFilter ''all''
     (MyAirdrops_initial\<lparr>userAirdrops :=
        [example_status ''u1'' ''a1'' ''in_progress'' 60,
         example_status ''u2'' ''a2'' ''completed'' 100], loading := False\<rparr>))"
proof -
  let ?st = "MyAirdrops_initial\<lparr>userAirdrops :=
        [example_status ''u1'' ''a1'' ''in_progress'' 60,
         example_status ''u2'' ''a2'' ''completed'' 100], loading := False\<rparr>"
  have "renderList (setSelectedFilter ''completed'' ?st) \<noteq>
        renderList (setSelectedFilter ''all'' ?st)"
    by (simp add: renderList_def setSelectedFilter_def MyAirdrops_filteredAirdrops_def
        example_status_def Let_def)
  with header_independent_of_filter [of "''completed''" ?st "''all''"]
  show ?thesis by blast
qed


section \<open>Joining statuses with the details\<close>

lemma shownCards_Cons:
  "shownCards (Inr child # es) =
     (case shownCards es of
        Inl e \<Rightarrow> Inl e
      | Inr cards \<Rightarrow> Inr (case child of None \<Rightarrow> cards | Some c \<Rightarrow> c # cards))"
  by (simp add: shownCards_def)

lemma shownCards_Nil: "shownCards [] = Inr []"
  by (simp add: shownCards_def)

lemma proto_inherited: "''__proto__'' \<in> set Object_prototype_properties"
  by (simp add: Object_prototype_properties_def)

text \<open>
  As long as nothing was stored under \<^verbatim>\<open>__proto__\<close> and the id either has an entry or is
  no property of \<^verbatim>\<open>Object.prototype\<close>, the read is the lookup in the stored entries.
\<close>

lemma renderAirdropCard_entries:
  assumes "C ''__proto__'' = None"
    and "airdrop_id s \<in> dom C \<or> airdrop_id s \<notin> set Object_prototype_properties"
  shows "renderAirdropCard C s = Inr (map_option (airdropCard s) (C (airdrop_id s)))"
proof (cases "C (airdrop_id s)")
  case None
  with assms(2) have "airdrop_id s \<notin> set Object_prototype_properties"
    by (simp add: domIff)
  moreover from this proto_inherited have "airdrop_id s \<noteq> ''__proto__''"
    by (cases "airdrop_id s = ''__proto__''") simp_all
  ultimately show ?thesis
    using None assms(1) by (simp add: renderAirdropCard_def airdropDetails_get_def)
next
  case (Some a)
  with assms(1) have "airdrop_id s \<noteq> ''__proto__''"
    by auto
  with Some show ?thesis
    by (simp add: renderAirdropCard_def airdropDetails_get_def)
qed

text \<open>
  Under these conditions the cards on screen are, in order, one card for each status whose
  \<^verbatim>\<open>airdrop_id\<close> has an entry, built from the status and the entry, and the render does not
  throw.
\<close>

lemma join_statuses_catalog:
  assumes "C ''__proto__'' = None"
    and "\<forall>s \<in> set S. airdrop_id s \<in> dom C \<or> airdrop_id s \<notin> set Object_prototype_properties"
  shows "\<exists>cards. shownCards (map (renderAirdropCard C) S) = Inr cards \<and>
     list_all2 (\<lambda>card s. \<exists>a. C (airdrop_id s) = Some a \<and> card = airdropCard s a)
       cards (filter (\<lambda>s. airdrop_id s \<in> dom C) S) \<and>
     length cards = length (filter (\<lambda>s. airdrop_id s \<in> dom C) S)"
proof -
  have "\<exists>cards. shownCards (map (renderAirdropCard C) S) = Inr cards \<and>
     list_all2 (\<lambda>card s. \<exists>a. C (airdrop_id s) = Some a \<and> card = airdropCard s a)
       cards (filter (\<lambda>s. airdrop_id s \<in> dom C) S)"
    using assms(2)
  proof (induction S)
    case Nil
    show ?case by (simp add: shownCards_Nil)
  next
    case (Cons s S)
    then obtain cards where c: "shownCards (map (renderAirdropCard C) S) = Inr cards"
      "list_all2 (\<lambda>card s. \<exists>a. C (airdrop_id s) = Some a \<and> card = airdropCard s a)
         cards (filter (\<lambda>s. airdrop_id s \<in> dom C) S)"
      by auto
    from Cons.prems have "airdrop_id s \<in> dom C \<or> airdrop_id s \<notin> set Object_prototype_properties"
      by simp
    from renderAirdropCard_entries [OF assms(1) this]
    have r: "renderAirdropCard C s = Inr (map_option (airdropCard s) (C (airdrop_id s)))" .
    show ?case
    proof (cases "C (airdrop_id s)")
      case None
      then have "airdrop_id s \<notin> dom C" by (simp add: domIff)
      with None c r show ?thesis
        by (simp add: shownCards_Cons)
    next
      case (Some a)
      then have "airdrop_id s \<in> dom C" by (simp add: domIff)
      with Some c r show ?thesis
        by (simp add: shownCards_Cons)
    qed
  qed
  then show ?thesis
    by (auto dest: list_all2_lengthD)
qed

text \<open>
  The scenario of the specification: one status with progress 60 whose airdrop is in the
  catalog with reward 100 USDC, and one whose airdrop is not.
\<close>

lemma join_statuses_catalog_example:
  "shownCards (map (renderAirdropCard [''a1'' \<mapsto> example_airdrop ''a1'' ''active''])
     [example_status ''u1'' ''a1'' ''in_progress'' 60,
      example_status ''u2'' ''a2'' ''not_started'' 0]) =
     Inr [airdropCard (example_status ''u1'' ''a1'' ''in_progress'' 60)
        (example_airdrop ''a1'' ''active'')] \<and>
   renderAirdropCard [''a1'' \<mapsto> example_airdrop ''a1'' ''active'']
     (example_status ''u2'' ''a2'' ''not_started'' 0) = Inr None \<and>
   card_progress (airdropCard (example_status ''u1'' ''a1'' ''in_progress'' 60)
        (example_airdrop ''a1'' ''active'')) = 60 \<and>
   card_bar_color (airdropCard (example_status ''u1'' ''a1'' ''in_progress'' 60)
        (example_airdrop ''a1'' ''active'')) = warning MyAirdrops_theme \<and>
   card_reward (airdropCard (example_status ''u1'' ''a1'' ''in_progress'' 60)
        (example_airdrop ''a1'' ''active'')) = Some ''100 USDC''"
proof -
  let ?C = "[''a1'' \<mapsto> example_airdrop ''a1'' ''active'']"
  let ?s1 = "example_status ''u1'' ''a1'' ''in_progress'' 60"
  let ?s2 = "example_status ''u2'' ''a2'' ''not_started'' 0"
  have id1: "airdrop_id ?s1 = ''a1''" and id2: "airdrop_id ?s2 = ''a2''"
    by (simp_all add: example_status_def)
  have p: "?C ''__proto__'' = None"
    by simp
  have 1: "renderAirdropCard ?C ?s1 = Inr (Some (airdropCard ?s1 (example_airdrop ''a1'' ''active'')))"
    using renderAirdropCard_entries [of ?C ?s1] p by (simp add: id1)
  have 2: "renderAirdropCard ?C ?s2 = Inr None"
    using renderAirdropCard_entries [of ?C ?s2] p
    by (simp add: id2 Object_prototype_properties_def)
  have a: "shownCards (map (renderAirdropCard ?C) [?s1, ?s2]) =
      Inr [airdropCard ?s1 (example_airdrop ''a1'' ''active'')]"
    by (simp add: 1 2 shownCards_Cons shownCards_Nil)
  have c: "card_progress (airdropCard ?s1 (example_airdrop ''a1'' ''active'')) = 60"
    "card_bar_color (airdropCard ?s1 (example_airdrop ''a1'' ''active'')) =
       warning MyAirdrops_theme"
    "card_reward (airdropCard ?s1 (example_airdrop ''a1'' ''active'')) = Some ''100 USDC''"
    by (simp_all add: airdropCard_def example_status_def example_airdrop_def
        getProgressBarColor_def truthy_def jsx_text_def)
  from a 2 c show ?thesis by simp
qed

text \<open>
  Claim C1. The claim is that a status whose \<^verbatim>\<open>airdrop_id\<close> is no key of the details gives
  no card and no error. The code reads the details from a plain object. Take one tracked
  status with the airdrop id \<^verbatim>\<open>constructor\<close> whose detail request is refused: the load
  finishes with no entry stored, the id is no key of the details, and yet the read finds
  the property that every object inherits, the card is not dropped, and rendering it
  throws a \<^verbatim>\<open>TypeError\<close>.
\<close>

theorem renderAirdropCard_inherited_property:
  "loadUserAirdrops
     (Ok (Json [example_status ''u1'' ''constructor'' ''in_progress'' 60])
        :: (UserAirdropStatus list, unit) fetch)
     (\<lambda>i. NotOk JsonRejects) (\<lambda>i. i) MyAirdrops_initial =
     Finished (MyAirdrops_initial\<lparr>userAirdrops :=
                 [example_status ''u1'' ''constructor'' ''in_progress'' 60],
               airdropDetails := Map.empty, loading := False\<rparr>) [] \<and>
   airdrop_id (example_status ''u1'' ''constructor'' ''in_progress'' 60) \<notin>
     dom (Map.empty :: string \<rightharpoonup> Airdrop) \<and>
   renderAirdropCard Map.empty (example_status ''u1'' ''constructor'' ''in_progress'' 60) =
     Inl TypeError \<and>
   shownCards (map (renderAirdropCard Map.empty)
     [example_status ''u1'' ''constructor'' ''in_progress'' 60]) = Inl TypeError"
proof -
  let ?s = "example_status ''u1'' ''constructor'' ''in_progress'' 60"
  have id: "airdrop_id ?s = ''constructor''"
    by (simp add: example_status_def)
  have o: "completionOrder (\<lambda>i. i) [?s] = [(0, ?s)]"
    by (simp add: completionOrder_def)
  have 1: "loadUserAirdrops (Ok (Json [?s]) :: (UserAirdropStatus list, unit) fetch)
     (\<lambda>i. NotOk JsonRejects) (\<lambda>i. i) MyAirdrops_initial =
     Finished (MyAirdrops_initial\<lparr>userAirdrops := [?s], airdropDetails := Map.empty,
                 loading := False\<rparr>) []"
    by (simp add: loadUserAirdrops_def o)
  have 2: "renderAirdropCard Map.empty ?s = Inl TypeError"
    by (simp add: renderAirdropCard_def airdropDetails_get_def id
        Object_prototype_properties_def)
  have 3: "shownCards (map (renderAirdropCard Map.empty) [?s]) = Inl TypeError"
    by (simp add: 2 shownCards_def)
  from 1 2 3 show ?thesis by simp
qed


section \<open>The loading flag\<close>

lemma set_completionOrder:
  "set (completionOrder delay data) = set (enumerate 0 data)"
  by (simp add: completionOrder_def)

lemma fst_set_completionOrder:
  "fst ` set (completionOrder delay data) = {0..<length data}"
  by (simp add: set_completionOrder flip: set_map)

lemma all_settle_iff:
  "list_all (\<lambda>p. settles (env (fst p))) (completionOrder delay data) \<longleftrightarrow>
   (\<forall>i < length data. settles (env i))"
proof -
  have "list_all (\<lambda>p. settles (env (fst p))) (completionOrder delay data) \<longleftrightarrow>
        (\<forall>i \<in> fst ` set (completionOrder delay data). settles (env i))"
    by (simp add: list_all_iff)
  then show ?thesis
    unfolding fst_set_completionOrder by auto
qed

lemma loadUserAirdrops_Finished_loading:
  "loadUserAirdrops response env delay st = Finished st' log \<Longrightarrow> \<not> loading st'"
  by (auto simp: loadUserAirdrops_def Let_def
      split: fetch.splits json.splits prod.splits if_splits)

lemma loadUserAirdrops_finishes:
  assumes "settles response"
    and "\<And>data. response = Ok (Json data) \<Longrightarrow> \<forall>i < length data. settles (env i)"
  shows "\<exists>st' log. loadUserAirdrops response env delay st = Finished st' log"
proof (cases response)
  case (Ok body)
  show ?thesis
  proof (cases body)
    case (Json data)
    with Ok assms(2) have "list_all (\<lambda>p. settles (env (fst p))) (completionOrder delay data)"
      by (simp add: all_settle_iff)
    with Ok Json show ?thesis
      by (simp add: loadUserAirdrops_def Let_def split: prod.splits)
  qed (use Ok assms(1) in \<open>simp_all add: loadUserAirdrops_def\<close>)
qed (use assms(1) in \<open>simp_all add: loadUserAirdrops_def\<close>)

lemma loadUserData_Finished_loading:
  "loadUserData response st = Finished st' log \<Longrightarrow> \<not> pr_loading st'"
  by (auto simp: loadUserData_def split: fetch.splits json.splits)

lemma loadUserData_finishes:
  "settles response \<Longrightarrow> \<exists>st' log. loadUserData response st = Finished st' log"
  by (cases response rule: settles.cases) (simp_all add: loadUserData_def)

lemma fetchAirdropDetails_Finished_loading:
  "fetchAirdropDetails response st = Finished st' log \<Longrightarrow> \<not> ad_loading st'"
  by (auto simp: fetchAirdropDetails_def split: fetch.splits json.splits)

lemma fetchAirdropDetails_finishes:
  "settles response \<Longrightarrow> \<exists>st' log. fetchAirdropDetails response st = Finished st' log"
  by (cases response rule: settles.cases) (simp_all add: fetchAirdropDetails_def)

lemma loadInitialData_Finished_loading:
  "loadInitialData r1 r2 st = Finished st' log \<Longrightarrow> \<not> ix_loading st'"
  by (auto simp: loadInitialData_def split: run.splits)

lemma fetchAirdrops_finishes:
  "settles response \<Longrightarrow> \<exists>st' log. fetchAirdrops response st = Finished st' log"
  by (cases response rule: settles.cases) (simp_all add: fetchAirdrops_def)

lemma fetchUser_finishes:
  "settles response \<Longrightarrow> \<exists>st' log. fetchUser response st = Finished st' log"
  by (cases response rule: settles.cases) (simp_all add: fetchUser_def)

lemma loadInitialData_finishes:
  assumes "settles r1" "settles r2"
  shows "\<exists>st' log. loadInitialData r1 r2 st = Finished st' log"
proof -
  from fetchAirdrops_finishes [OF assms(1)]
  obtain st1 log1 where 1: "fetchAirdrops r1 st = Finished st1 log1" by blast
  from fetchUser_finishes [OF assms(2)]
  obtain st2 log2 where 2: "fetchUser r2 st1 = Finished st2 log2" by blast
  from 1 2 show ?thesis by (simp add: loadInitialData_def)
qed

text \<open>
  Claim C8. Whatever the outcome of a screen's initial load (the request succeeds, the
  response is not OK, the request or the parse of the body throws), the load that finishes
  leaves the loading flag cleared; and the load does finish whenever each request it awaits
  settles. This holds for the tracked-airdrops, profile, detail and catalog screens.
\<close>

theorem loading_flag_cleared:
  "(loadUserAirdrops listResponse env delay st = Finished st' log \<longrightarrow> \<not> loading st') \<and>
   (settles listResponse \<and>
    (\<forall>data. listResponse = Ok (Json data) \<longrightarrow> (\<forall>i < length data. settles (env i))) \<longrightarrow>
      (\<exists>st' log. loadUserAirdrops listResponse env delay st = Finished st' log \<and>
                 \<not> loading st')) \<and>
   (loadUserData userResponse pst = Finished pst' plog \<longrightarrow> \<not> pr_loading pst') \<and>
   (settles userResponse \<longrightarrow>
      (\<exists>pst' plog. loadUserData userResponse pst = Finished pst' plog \<and> \<not> pr_loading pst')) \<and>
   (fetchAirdropDetails airdropResponse dst = Finished dst' dlog \<longrightarrow> \<not> ad_loading dst') \<and>
   (settles airdropResponse \<longrightarrow>
      (\<exists>dst' dlog. fetchAirdropDetails airdropResponse dst = Finished dst' dlog \<and>
                   \<not> ad_loading dst')) \<and>
   (loadInitialData airdropsResponse indexUserResponse ist = Finished ist' ilog \<longrightarrow>
      \<not> ix_loading ist') \<and>
   (settles airdropsResponse \<and> settles indexUserResponse \<longrightarrow>
      (\<exists>ist' ilog. loadInitialData airdropsResponse indexUserResponse ist = Finished ist' ilog \<and>
                   \<not> ix_loading ist'))"
proof (intro conjI impI)
  assume "settles listResponse \<and>
    (\<forall>data. listResponse = Ok (Json data) \<longrightarrow> (\<forall>i < length data. settles (env i)))"
  then obtain s l where "loadUserAirdrops listResponse env delay st = Finished s l"
    using loadUserAirdrops_finishes [of listResponse env delay st] by blast
  then show "\<exists>st' log. loadUserAirdrops listResponse env delay st = Finished st' log \<and>
                 \<not> loading st'"
    using loadUserAirdrops_Finished_loading by blast
next
  assume "settles userResponse"
  then obtain s l where "loadUserData userResponse pst = Finished s l"
    using loadUserData_finishes by blast
  then show "\<exists>pst' plog. loadUserData userResponse pst = Finished pst' plog \<and>
      \<not> pr_loading pst'"
    using loadUserData_Finished_loading by blast
next
  assume "settles airdropResponse"
  then obtain s l where "fetchAirdropDetails airdropResponse dst = Finished s l"
    using fetchAirdropDetails_finishes by blast
  then show "\<exists>dst' dlog. fetchAirdropDetails airdropResponse dst = Finished dst' dlog \<and>
                   \<not> ad_loading dst'"
    using fetchAirdropDetails_Finished_loading by blast
next
  assume "settles airdropsResponse \<and> settles indexUserResponse"
  then obtain s l where "loadInitialData airdropsResponse indexUserResponse ist = Finished s l"
    using loadInitialData_finishes by blast
  then show "\<exists>ist' ilog. loadInitialData airdropsResponse indexUserResponse ist =
      Finished ist' ilog \<and> \<not> ix_loading ist'"
    using loadInitialData_Finished_loading by blast
qed (rule loadUserAirdrops_Finished_loading loadUserData_Finished_loading
      fetchAirdropDetails_Finished_loading loadInitialData_Finished_loading, assumption)+

theorem loading_flag_cleared_witness:
  "settles (Ok (Json [example_status ''u1'' ''a1'' ''in_progress'' 60])
      :: (UserAirdropStatus list, unit) fetch) \<and>
   settles (NotOk JsonRejects :: (Airdrop, unit) fetch) \<and>
   (\<exists>st' log.
      loadUserAirdrops
        (Ok (Json [example_status ''u1'' ''a1'' ''in_progress'' 60])
           :: (UserAirdropStatus list, unit) fetch)
        (\<lambda>i. NotOk JsonRejects) (\<lambda>i. i) MyAirdrops_initial = Finished st' log \<and>
      \<not> loading st') \<and>
   loading MyAirdrops_initial \<and>
   settles (FetchRejects :: (User, unit) fetch) \<and>
   (\<exists>pst' plog. loadUserData (FetchRejects :: (User, unit) fetch) Profile_initial =
      Finished pst' plog \<and> \<not> pr_loading pst') \<and>
   settles (NotOk (Json ()) :: (Airdrop, unit) fetch) \<and>
   (\<exists>dst' dlog. fetchAirdropDetails (NotOk (Json ()) :: (Airdrop, unit) fetch)
      AirdropDetail_initial = Finished dst' dlog \<and> \<not> ad_loading dst') \<and>
   settles (Ok JsonRejects :: (Airdrop list, unit) fetch) \<and>
   (\<exists>ist' ilog. loadInitialData (Ok JsonRejects :: (Airdrop list, unit) fetch)
      (Ok (Json example_user) :: (User, unit) fetch) Index_initial = Finished ist' ilog \<and>
      \<not> ix_loading ist')"
  using loading_flag_cleared
    [where listResponse = "Ok (Json [example_status ''u1'' ''a1'' ''in_progress'' 60])
             :: (UserAirdropStatus list, unit) fetch"
       and env = "\<lambda>i. NotOk JsonRejects" and delay = "\<lambda>i. i" and st = MyAirdrops_initial
       and userResponse = "FetchRejects :: (User, unit) fetch" and pst = Profile_initial
       and airdropResponse = "NotOk (Json ()) :: (Airdrop, unit) fetch"
       and dst = AirdropDetail_initial
       and airdropsResponse = "Ok JsonRejects :: (Airdrop list, unit) fetch"
       and indexUserResponse = "Ok (Json example_user) :: (User, unit) fetch"
       and ist = Index_initial]
  by (simp add: MyAirdrops_initial_def)


section \<open>Daily check-in\<close>

lemma Profile_checkin_Ok:
  "Profile_handleDailyCheckin (Ok (Json result)) now st =
     Finished (st\<lparr>pr_user := map_option (\<lambda>prev. prev\<lparr>total_points := result_total_points result,
                 daily_streak := streak result, last_checkin := Some now\<rparr>) (pr_user st)\<rparr>)
       [checkinAlert result]"
  by (simp add: Profile_handleDailyCheckin_def map_option_case)

lemma Profile_checkin_other:
  assumes "\<And>result. response \<noteq> Ok (Json result)"
    and "Profile_handleDailyCheckin response now st = Finished st' log"
  shows "st' = st"
proof (cases response)
  case (Ok body)
  show ?thesis
  proof (cases body)
    case (Json result)
    with Ok assms(1) show ?thesis by blast
  qed (use Ok assms(2) in \<open>simp_all add: Profile_handleDailyCheckin_def\<close>)
next
  case (NotOk body)
  with assms(2) show ?thesis
    by (cases body) (simp_all add: Profile_handleDailyCheckin_def)
qed (use assms(2) in \<open>simp_all add: Profile_handleDailyCheckin_def\<close>)

lemma Index_checkin_Ok:
  "Index_handleDailyCheckin (Ok (Json result)) st =
     Finished (st\<lparr>ix_user := map_option (\<lambda>prev. prev\<lparr>total_points := result_total_points result,
                 daily_streak := streak result\<rparr>) (ix_user st)\<rparr>)
       [checkinAlert result]"
  by (simp add: Index_handleDailyCheckin_def map_option_case)

lemma Index_checkin_other:
  assumes "\<And>result. response \<noteq> Ok (Json result)"
    and "Index_handleDailyCheckin response st = Finished st' log"
  shows "st' = st"
proof (cases response)
  case (Ok body)
  show ?thesis
  proof (cases body)
    case (Json result)
    with Ok assms(1) show ?thesis by blast
  qed (use Ok assms(2) in \<open>simp_all add: Index_handleDailyCheckin_def\<close>)
next
  case (NotOk body)
  with assms(2) show ?thesis
    by (cases body) (simp_all add: Index_handleDailyCheckin_def)
qed (use assms(2) in \<open>simp_all add: Index_handleDailyCheckin_def\<close>)

lemma not_success_case:
  "(\<And>result. response \<noteq> Ok (Json result)) \<Longrightarrow>
   (case response of Ok (Json result) \<Rightarrow> P result | _ \<Rightarrow> Q) = Q"
  by (cases response) (auto split: json.splits)

lemma Profile_checkin_user:
  assumes a: "Profile_handleDailyCheckin response now st = Finished st' log"
  shows "st'\<lparr>pr_user := pr_user st\<rparr> = st \<and>
      (pr_user st = None \<longrightarrow> pr_user st' = None) \<and>
      (\<forall>u. pr_user st = Some u \<longrightarrow>
         (\<exists>u'. pr_user st' = Some u' \<and>
            u_id u' = u_id u \<and> wallet_addresses u' = wallet_addresses u \<and>
            preferences u' = preferences u \<and> u_created_at u' = u_created_at u \<and>
            (case response of
               Ok (Json result) \<Rightarrow>
                 total_points u' = result_total_points result \<and>
                 daily_streak u' = streak result \<and> last_checkin u' = Some now
             | _ \<Rightarrow> u' = u)))"
proof (cases "\<exists>result. response = Ok (Json result)")
  case True
  then obtain result where r: "response = Ok (Json result)" by blast
  from a have "st' = st\<lparr>pr_user := map_option (\<lambda>prev. prev\<lparr>total_points := result_total_points result,
                 daily_streak := streak result, last_checkin := Some now\<rparr>) (pr_user st)\<rparr>"
    unfolding r Profile_checkin_Ok by simp
  then show ?thesis
    by (simp add: r)
next
  case False
  then have n: "\<And>result. response \<noteq> Ok (Json result)" by blast
  from Profile_checkin_other [OF n a] have "st' = st" .
  then show ?thesis
    by (simp add: not_success_case [OF n])
qed

lemma Index_checkin_user:
  assumes a: "Index_handleDailyCheckin response ist = Finished ist' ilog"
  shows "ist'\<lparr>ix_user := ix_user ist\<rparr> = ist \<and>
      (ix_user ist = None \<longrightarrow> ix_user ist' = None) \<and>
      (\<forall>u. ix_user ist = Some u \<longrightarrow>
         (\<exists>u'. ix_user ist' = Some u' \<and>
            u_id u' = u_id u \<and> wallet_addresses u' = wallet_addresses u \<and>
            preferences u' = preferences u \<and> u_created_at u' = u_created_at u \<and>
            last_checkin u' = last_checkin u \<and>
            (case response of
               Ok (Json result) \<Rightarrow>
                 total_points u' = result_total_points result \<and>
                 daily_streak u' = streak result
             | _ \<Rightarrow> u' = u)))"
proof (cases "\<exists>result. response = Ok (Json result)")
  case True
  then obtain result where r: "response = Ok (Json result)" by blast
  from a have "ist' = ist\<lparr>ix_user := map_option (\<lambda>prev. prev\<lparr>total_points := result_total_points result,
                 daily_streak := streak result\<rparr>) (ix_user ist)\<rparr>"
    unfolding r Index_checkin_Ok by simp
  then show ?thesis
    by (simp add: r)
next
  case False
  then have n: "\<And>result. response \<noteq> Ok (Json result)" by blast
  from Index_checkin_other [OF n a] have "ist' = ist" .
  then show ?thesis
    by (simp add: not_success_case [OF n])
qed

text \<open>
  The frame of a check-in, on both screens: a check-in that finishes changes no state slot
  but the user, leaves an absent user absent, and leaves \<^verbatim>\<open>id\<close>, \<^verbatim>\<open>wallet_addresses\<close>,
  \<^verbatim>\<open>preferences\<close> and \<^verbatim>\<open>created_at\<close> of the user as they were; on success \<^verbatim>\<open>total_points\<close> and
  \<^verbatim>\<open>daily_streak\<close> are those of the server's response, and a check-in that fails leaves the
  user record as it was. The handler of the profile screen also sets \<^verbatim>\<open>last_checkin\<close> to the
  current time.
\<close>

lemma checkin_frame:
  "(Profile_handleDailyCheckin response now st = Finished st' log \<longrightarrow>
      st'\<lparr>pr_user := pr_user st\<rparr> = st \<and>
      (pr_user st = None \<longrightarrow> pr_user st' = None) \<and>
      (\<forall>u. pr_user st = Some u \<longrightarrow>
         (\<exists>u'. pr_user st' = Some u' \<and>
            u_id u' = u_id u \<and> wallet_addresses u' = wallet_addresses u \<and>
            preferences u' = preferences u \<and> u_created_at u' = u_created_at u \<and>
            (case response of
               Ok (Json result) \<Rightarrow>
                 total_points u' = result_total_points result \<and>
                 daily_streak u' = streak result \<and> last_checkin u' = Some now
             | _ \<Rightarrow> u' = u)))) \<and>
   (Index_handleDailyCheckin response ist = Finished ist' ilog \<longrightarrow>
      ist'\<lparr>ix_user := ix_user ist\<rparr> = ist \<and>
      (ix_user ist = None \<longrightarrow> ix_user ist' = None) \<and>
      (\<forall>u. ix_user ist = Some u \<longrightarrow>
         (\<exists>u'. ix_user ist' = Some u' \<and>
            u_id u' = u_id u \<and> wallet_addresses u' = wallet_addresses u \<and>
            preferences u' = preferences u \<and> u_created_at u' = u_created_at u \<and>
            (case response of
               Ok (Json result) \<Rightarrow>
                 total_points u' = result_total_points result \<and>
                 daily_streak u' = streak result
             | _ \<Rightarrow> u' = u))))"
  using Profile_checkin_user [of response now st st' log]
    Index_checkin_user [of response ist ist' ilog]
  by blast

text \<open>
  Claim C9. The claim is that a successful check-in sets \<^verbatim>\<open>total_points\<close>, \<^verbatim>\<open>daily_streak\<close>
  and \<^verbatim>\<open>last_checkin\<close>, the last to the current time. The handler of the profile screen does
  so. The handler of the catalog screen, for the same request and the same user record,
  leaves \<^verbatim>\<open>last_checkin\<close> out of its update: for a user who has never checked in and a
  successful response, the user record afterwards has the new points and streak and still
  no \<^verbatim>\<open>last_checkin\<close>, where the profile screen's handler stores the current time.
\<close>

theorem Index_handleDailyCheckin_omits_last_checkin:
  "Index_handleDailyCheckin (Ok (Json example_result))
     (Index_initial\<lparr>ix_user := Some example_user\<rparr>) =
     Finished (Index_initial\<lparr>ix_user := Some (example_user\<lparr>total_points := 110,
                 daily_streak := 3\<rparr>)\<rparr>)
       [checkinAlert example_result] \<and>
   last_checkin (example_user\<lparr>total_points := 110, daily_streak := 3\<rparr>) = None \<and>
   Profile_handleDailyCheckin (Ok (Json example_result)) ''2024-01-02T00:01:00.000Z''
     (Profile_initial\<lparr>pr_user := Some example_user\<rparr>) =
     Finished (Profile_initial\<lparr>pr_user := Some (example_user\<lparr>total_points := 110,
                 daily_streak := 3, last_checkin := Some ''2024-01-02T00:01:00.000Z''\<rparr>)\<rparr>)
       [checkinAlert example_result]"
  by (simp add: Index_handleDailyCheckin_def Profile_handleDailyCheckin_def
      example_result_def example_user_def)


section \<open>Concurrent detail fetches\<close>

lemma detailMapper_fst:
  "fst (detailMapper env (i, ua) (d, l)) =
     (case env i of Ok (Json a) \<Rightarrow> d(airdrop_id ua \<mapsto> a) | _ \<Rightarrow> d)"
  by (simp split: fetch.splits json.splits)

lemma fold_detailMapper_untouched:
  assumes "\<And>i ua a. (i, ua) \<in> set xs \<Longrightarrow> airdrop_id ua = k \<Longrightarrow> env i \<noteq> Ok (Json a)"
  shows "fst (fold (detailMapper env) xs (d, l)) k = d k"
  using assms
proof (induction xs arbitrary: d l)
  case Nil
  show ?case by simp
next
  case (Cons p xs)
  obtain i ua where p: "p = (i, ua)" by (cases p)
  obtain d1 l1 where s: "detailMapper env (i, ua) (d, l) = (d1, l1)"
    by (cases "detailMapper env (i, ua) (d, l)")
  have "d1 k = d k"
    using detailMapper_fst [of env i ua d l] Cons.prems [of i ua] s p
    by (auto split: fetch.splits json.splits)
  moreover have "fst (fold (detailMapper env) xs (d1, l1)) k = d1 k"
    by (rule Cons.IH) (use Cons.prems in auto)
  ultimately show ?case by (simp add: p s del: detailMapper.simps)
qed

lemma fold_detailMapper_value:
  assumes "fst (fold (detailMapper env) xs (d, l)) k = Some a"
  shows "d k = Some a \<or> (\<exists>i ua. (i, ua) \<in> set xs \<and> airdrop_id ua = k \<and> env i = Ok (Json a))"
  using assms
proof (induction xs arbitrary: d l)
  case Nil
  then show ?case by simp
next
  case (Cons p xs)
  obtain i ua where p: "p = (i, ua)" by (cases p)
  obtain d1 l1 where s: "detailMapper env (i, ua) (d, l) = (d1, l1)"
    by (cases "detailMapper env (i, ua) (d, l)")
  from Cons.prems have "fst (fold (detailMapper env) xs (d1, l1)) k = Some a"
    by (simp add: p s del: detailMapper.simps)
  from Cons.IH [OF this]
  consider "d1 k = Some a"
    | "\<exists>i ua. (i, ua) \<in> set xs \<and> airdrop_id ua = k \<and> env i = Ok (Json a)"
    by blast
  then show ?case
  proof cases
    case 1
    have "d1 = (case env i of Ok (Json a) \<Rightarrow> d(airdrop_id ua \<mapsto> a) | _ \<Rightarrow> d)"
      using detailMapper_fst [of env i ua d l] s by simp
    with 1 show ?thesis
      by (auto simp: p split: fetch.splits json.splits if_splits)
  next
    case 2
    then show ?thesis by (auto simp: p)
  qed
qed

lemma fold_detailMapper_present:
  assumes "(i, ua) \<in> set xs" "env i = Ok (Json a)"
  shows "\<exists>j ub b. (j, ub) \<in> set xs \<and> airdrop_id ub = airdrop_id ua \<and> env j = Ok (Json b) \<and>
           fst (fold (detailMapper env) xs (d, l)) (airdrop_id ua) = Some b"
  using assms
proof (induction xs arbitrary: d l i ua a)
  case Nil
  then show ?case by simp
next
  case (Cons p xs)
  obtain j ub where p: "p = (j, ub)" by (cases p)
  obtain d1 l1 where s: "detailMapper env (j, ub) (d, l) = (d1, l1)"
    by (cases "detailMapper env (j, ub) (d, l)")
  have step: "fold (detailMapper env) (p # xs) (d, l) = fold (detailMapper env) xs (d1, l1)"
    by (simp add: p s del: detailMapper.simps)
  show ?case
  proof (cases "\<exists>i' ua' a'. (i', ua') \<in> set xs \<and> airdrop_id ua' = airdrop_id ua \<and>
                   env i' = Ok (Json a')")
    case True
    then obtain i' ua' a' where t: "(i', ua') \<in> set xs" "airdrop_id ua' = airdrop_id ua"
      "env i' = Ok (Json a')" by blast
    from Cons.IH [OF t(1) t(3), of d1 l1]
    obtain j' ub' b where "(j', ub') \<in> set xs" "airdrop_id ub' = airdrop_id ua'"
      "env j' = Ok (Json b)"
      "fst (fold (detailMapper env) xs (d1, l1)) (airdrop_id ua') = Some b"
      by blast
    then show ?thesis
      unfolding step t(2) by auto
  next
    case False
    then have un: "\<And>i' ua' a'. (i', ua') \<in> set xs \<Longrightarrow> airdrop_id ua' = airdrop_id ua \<Longrightarrow>
        env i' \<noteq> Ok (Json a')" by blast
    with Cons.prems have hd: "i = j" "ua = ub"
      by (auto simp: p)
    have "d1 (airdrop_id ua) = Some a"
      using s Cons.prems(2) hd by auto
    moreover have "fst (fold (detailMapper env) xs (d1, l1)) (airdrop_id ua) =
        d1 (airdrop_id ua)"
      by (rule fold_detailMapper_untouched) (use un in blast)
    ultimately show ?thesis
      unfolding step using Cons.prems(2) hd by (auto simp: p)
  qed
qed

lemma fold_detailMapper_distinct:
  assumes "distinct (map (\<lambda>p. airdrop_id (snd p)) xs)" "(i, ua) \<in> set xs"
    "env i = Ok (Json a)"
  shows "fst (fold (detailMapper env) xs (d, l)) (airdrop_id ua) = Some a"
proof -
  from fold_detailMapper_present [of i ua xs env a d l] assms(2,3)
  obtain j ub b where j: "(j, ub) \<in> set xs" "airdrop_id ub = airdrop_id ua"
    "env j = Ok (Json b)"
    "fst (fold (detailMapper env) xs (d, l)) (airdrop_id ua) = Some b"
    by blast
  from assms(1) have "inj_on (\<lambda>p. airdrop_id (snd p)) (set xs)"
    by (simp add: distinct_map)
  from inj_onD [OF this _ j(1) assms(2)] j(2) have "(j, ub) = (i, ua)"
    by simp
  with j(3,4) assms(3) show ?thesis by simp
qed

lemma fold_detailMapper_dom:
  "dom (fst (fold (detailMapper env) xs (Map.empty, l))) =
     {airdrop_id ua | i ua. (i, ua) \<in> set xs \<and> (\<exists>a. env i = Ok (Json a))}"
proof (intro set_eqI iffI)
  fix k
  assume "k \<in> dom (fst (fold (detailMapper env) xs (Map.empty, l)))"
  then obtain a where "fst (fold (detailMapper env) xs (Map.empty, l)) k = Some a"
    by blast
  from fold_detailMapper_value [OF this]
  show "k \<in> {airdrop_id ua | i ua. (i, ua) \<in> set xs \<and> (\<exists>a. env i = Ok (Json a))}"
    by auto
next
  fix k
  assume "k \<in> {airdrop_id ua | i ua. (i, ua) \<in> set xs \<and> (\<exists>a. env i = Ok (Json a))}"
  then obtain i ua a where "(i, ua) \<in> set xs" "env i = Ok (Json a)" "k = airdrop_id ua"
    by blast
  with fold_detailMapper_present [of i ua xs env a Map.empty l]
  show "k \<in> dom (fst (fold (detailMapper env) xs (Map.empty, l)))"
    by auto
qed

lemma fold_detailMapper_log:
  "snd (fold (detailMapper env) xs (d, l)) =
     l @ map (\<lambda>p. ConsoleError ''Error fetching airdrop details:'')
           (filter (\<lambda>p. env (fst p) = FetchRejects \<or> env (fst p) = Ok JsonRejects) xs)"
proof (induction xs arbitrary: d l)
  case Nil
  show ?case by simp
next
  case (Cons p xs)
  obtain i ua where p: "p = (i, ua)" by (cases p)
  show ?case
    by (cases "env i" rule: settles.cases) (simp_all add: p Cons.IH)
qed

lemma in_set_completionOrder:
  "(i, ua) \<in> set (completionOrder delay data) \<longleftrightarrow> i < length data \<and> ua = data ! i"
  by (auto simp: completionOrder_def in_set_enumerate_eq)

lemma distinct_completionOrder:
  assumes "distinct (map airdrop_id data)"
  shows "distinct (map (\<lambda>p. airdrop_id (snd p)) (completionOrder delay data))"
proof -
  have "mset (map (\<lambda>p. airdrop_id (snd p)) (completionOrder delay data)) =
        mset (map (\<lambda>p. airdrop_id (snd p)) (enumerate 0 data))"
    by (simp add: completionOrder_def)
  also have "map (\<lambda>p. airdrop_id (snd p)) (enumerate 0 data) =
             map airdrop_id (map snd (enumerate 0 data))"
    by (simp only: map_map comp_def)
  also have "\<dots> = map airdrop_id data"
    by simp
  finally show ?thesis
    using assms by (metis mset_eq_imp_distinct_iff)
qed

lemma rejected_completionOrder:
  "length (filter (\<lambda>p. P (fst p)) (completionOrder delay data)) =
   length (filter P [0..<length data])"
proof -
  have "length (filter (\<lambda>p. P (fst p)) (completionOrder delay data)) =
        size (filter_mset (\<lambda>p. P (fst p)) (mset (completionOrder delay data)))"
    by (metis mset_filter size_mset)
  also have "\<dots> = size (filter_mset (\<lambda>p. P (fst p)) (mset (enumerate 0 data)))"
    by (simp add: completionOrder_def)
  also have "\<dots> = length (filter (\<lambda>p. P (fst p)) (enumerate 0 data))"
    by (metis mset_filter size_mset)
  also have "\<dots> = length (filter P (map fst (enumerate 0 data)))"
    by (simp only: filter_map comp_def length_map)
  also have "\<dots> = length (filter P [0..<length data])"
    by simp
  finally show ?thesis .
qed

text \<open>
  Claim C6. When the list of tracked statuses has arrived and every detail request settles,
  in whatever order, the load finishes and stores a detail mapping whose keys are exactly
  the airdrop ids of the requests that succeeded: a request that throws or is not OK leaves
  only its own entry out. Every request that succeeded has its airdrop id in the mapping,
  bound to the body of a successful request for that id, which is its own body when the
  airdrop ids of the list are distinct. Each request that threw is logged once.
\<close>

theorem partial_failure_keeps_successes:
  assumes "\<forall>i < length data. settles (env i)"
  shows "\<exists>details log.
     loadUserAirdrops (Ok (Json data)) env delay st =
       Finished (st\<lparr>userAirdrops := data, airdropDetails := details, loading := False\<rparr>) log \<and>
     dom details =
       {airdrop_id (data ! i) | i. i < length data \<and> (\<exists>a. env i = Ok (Json a))} \<and>
     (\<forall>i < length data. \<forall>a. env i = Ok (Json a) \<longrightarrow>
        (\<exists>j < length data. \<exists>b. airdrop_id (data ! j) = airdrop_id (data ! i) \<and>
           env j = Ok (Json b) \<and> details (airdrop_id (data ! i)) = Some b)) \<and>
     (distinct (map airdrop_id data) \<longrightarrow>
        (\<forall>i < length data. \<forall>a. env i = Ok (Json a) \<longrightarrow>
           details (airdrop_id (data ! i)) = Some a)) \<and>
     length log =
       length (filter (\<lambda>i. env i = FetchRejects \<or> env i = Ok JsonRejects) [0..<length data])"
proof -
  let ?order = "completionOrder delay data"
  obtain details log where f: "fold (detailMapper env) ?order (Map.empty, []) = (details, log)"
    by (cases "fold (detailMapper env) ?order (Map.empty, [])")
  have d: "details = fst (fold (detailMapper env) ?order (Map.empty, []))"
    and l: "log = snd (fold (detailMapper env) ?order (Map.empty, []))"
    by (simp_all add: f)
  have all: "list_all (\<lambda>p. settles (env (fst p))) ?order"
    using assms by (auto simp: list_all_iff in_set_completionOrder)
  have 1: "loadUserAirdrops (Ok (Json data)) env delay st =
       Finished (st\<lparr>userAirdrops := data, airdropDetails := details, loading := False\<rparr>) log"
    using all f by (simp add: loadUserAirdrops_def Let_def)
  have 2: "dom details =
       {airdrop_id (data ! i) | i. i < length data \<and> (\<exists>a. env i = Ok (Json a))}"
    unfolding d fold_detailMapper_dom by (auto simp: in_set_completionOrder)
  have 3: "\<exists>j < length data. \<exists>b. airdrop_id (data ! j) = airdrop_id (data ! i) \<and>
           env j = Ok (Json b) \<and> details (airdrop_id (data ! i)) = Some b"
    if "i < length data" "env i = Ok (Json a)" for i a
  proof -
    from that have "(i, data ! i) \<in> set ?order"
      by (simp add: in_set_completionOrder)
    from fold_detailMapper_present [of i "data ! i" ?order env a Map.empty "[]"] this that(2)
    show ?thesis
      unfolding d by (auto simp: in_set_completionOrder)
  qed
  have 4: "details (airdrop_id (data ! i)) = Some a"
    if "distinct (map airdrop_id data)" "i < length data" "env i = Ok (Json a)" for i a
  proof -
    from that have "(i, data ! i) \<in> set ?order"
      by (simp add: in_set_completionOrder)
    from fold_detailMapper_distinct [of ?order i "data ! i" env a Map.empty "[]"]
      distinct_completionOrder [OF that(1)] this that(3)
    show ?thesis
      unfolding d by simp
  qed
  have 5: "length log =
       length (filter (\<lambda>i. env i = FetchRejects \<or> env i = Ok JsonRejects) [0..<length data])"
    unfolding l fold_detailMapper_log
    by (simp add: rejected_completionOrder
        [of "\<lambda>i. env i = FetchRejects \<or> env i = Ok JsonRejects"])
  from 1 2 3 4 5 show ?thesis by blast
qed

text \<open>
  The scenario of the specification: two detail requests, the first throws, the second
  succeeds and settles first.
\<close>

theorem partial_failure_keeps_successes_witness:
  "\<exists>details log.
     loadUserAirdrops
       (Ok (Json [example_status ''u1'' ''a1'' ''in_progress'' 60,
                  example_status ''u2'' ''a2'' ''not_started'' 0])
          :: (UserAirdropStatus list, unit) fetch)
       (\<lambda>i. if i = 0 then FetchRejects else Ok (Json (example_airdrop ''a2'' ''active'')))
       (\<lambda>i. 1 - i) MyAirdrops_initial =
       Finished (MyAirdrops_initial\<lparr>userAirdrops :=
                   [example_status ''u1'' ''a1'' ''in_progress'' 60,
                    example_status ''u2'' ''a2'' ''not_started'' 0],
                 airdropDetails := details, loading := False\<rparr>) log \<and>
     details ''a2'' = Some (example_airdrop ''a2'' ''active'') \<and>
     details ''a1'' = None \<and>
     length log = 1"
proof -
  let ?data = "[example_status ''u1'' ''a1'' ''in_progress'' 60,
                example_status ''u2'' ''a2'' ''not_started'' 0]"
  let ?env = "\<lambda>i::nat. if i = 0 then FetchRejects
                else (Ok (Json (example_airdrop ''a2'' ''active'')) :: (Airdrop, unit) fetch)"
  have ids: "airdrop_id (example_status ''u1'' ''a1'' ''in_progress'' 60) = ''a1''"
    "airdrop_id (example_status ''u2'' ''a2'' ''not_started'' 0) = ''a2''"
    by (simp_all add: example_status_def)
  have s: "\<forall>i < length ?data. settles (?env i)"
    by simp
  from partial_failure_keeps_successes [OF s, of "\<lambda>i. 1 - i" MyAirdrops_initial]
  obtain details log where
    r: "loadUserAirdrops (Ok (Json ?data)) ?env (\<lambda>i. 1 - i) MyAirdrops_initial =
          Finished (MyAirdrops_initial\<lparr>userAirdrops := ?data, airdropDetails := details,
                      loading := False\<rparr>) log"
    and dm: "dom details =
       {airdrop_id (?data ! i) | i. i < length ?data \<and> (\<exists>a. ?env i = Ok (Json a))}"
    and dist: "distinct (map airdrop_id ?data) \<longrightarrow>
        (\<forall>i < length ?data. \<forall>a. ?env i = Ok (Json a) \<longrightarrow>
           details (airdrop_id (?data ! i)) = Some a)"
    and ll: "length log =
       length (filter (\<lambda>i. ?env i = FetchRejects \<or> ?env i = Ok JsonRejects)
                 [0..<length ?data])"
    by blast
  have "distinct (map airdrop_id ?data)"
    by (simp add: ids)
  with dist have "\<forall>i < length ?data. \<forall>a. ?env i = Ok (Json a) \<longrightarrow>
           details (airdrop_id (?data ! i)) = Some a"
    by blast
  from this [rule_format, of 1 "example_airdrop ''a2'' ''active''"]
  have "details (airdrop_id (?data ! 1)) = Some (example_airdrop ''a2'' ''active'')"
    by simp
  then have a2: "details ''a2'' = Some (example_airdrop ''a2'' ''active'')"
    by (simp add: ids)
  have "''a1'' \<notin> dom details"
    unfolding dm by (auto simp: ids less_Suc_eq)
  then have a1: "details ''a1'' = None"
    by (simp add: domIff)
  have "[0..<length ?data] = [0, 1]"
    by (simp add: upt_rec)
  with ll have l1: "length log = 1"
    by simp
  from r a2 a1 l1 show ?thesis by blast
qed


section \<open>Calendar dates and the daily check-in\<close>

text \<open>
  The year computed by \<open>YearFromTime\<close> is the one the standard defines: the estimate is off
  by at most one year in either direction.
\<close>

lemma div_bounds:
  fixes a k :: int
  assumes "0 < k"
  shows "k * (a div k) \<le> a" "a < k * (a div k) + k"
proof -
  have "a = k * (a div k) + a mod k" by simp
  moreover have "0 \<le> a mod k" "a mod k < k" using assms by simp_all
  ultimately show "k * (a div k) \<le> a" "a < k * (a div k) + k" by linarith+
qed

lemma DayFromYear_estimate_lower:
  fixes d :: int
  defines "y \<equiv> 1970 + (400 * d) div 146097"
  shows "DayFromYear (y - 1) \<le> d"
proof -
  define q where "q = (400 * d) div 146097"
  define A where "A = q div 4"
  define B where "B = (q + 68) div 100"
  define C where "C = (q + 368) div 400"
  have y: "y = 1970 + q" by (simp add: y_def q_def)
  have q: "146097 * q \<le> 400 * d"
    unfolding q_def by (rule div_bounds) simp
  have a: "4 * A \<le> q" unfolding A_def by (rule div_bounds) simp
  have b: "q + 68 < 100 * B + 100" unfolding B_def by (rule div_bounds) simp
  have c: "400 * C \<le> q + 368" unfolding C_def by (rule div_bounds) simp
  have "DayFromYear (y - 1) = 365 * q - 365 + A - B + C"
    by (simp add: DayFromYear_def y A_def B_def C_def add.commute)
  with q a b c show ?thesis by linarith
qed

lemma DayFromYear_estimate_upper:
  fixes d :: int
  defines "y \<equiv> 1970 + (400 * d) div 146097"
  shows "d < DayFromYear (y + 2)"
proof -
  define q where "q = (400 * d) div 146097"
  define A where "A = (q + 3) div 4"
  define B where "B = (q + 71) div 100"
  define C where "C = (q + 371) div 400"
  have y: "y = 1970 + q" by (simp add: y_def q_def)
  have q: "400 * d < 146097 * q + 146097"
    unfolding q_def by (rule div_bounds) simp
  have a: "q + 3 < 4 * A + 4" unfolding A_def by (rule div_bounds) simp
  have b: "100 * B \<le> q + 71" unfolding B_def by (rule div_bounds) simp
  have c: "q + 371 < 400 * C + 400" unfolding C_def by (rule div_bounds) simp
  have "DayFromYear (y + 2) = 365 * q + 730 + A - B + C"
    by (simp add: DayFromYear_def y A_def B_def C_def add.commute)
  with q a b c show ?thesis by linarith
qed

lemma YearFromTime_bounds:
  "DayFromYear (YearFromTime t) \<le> Day t \<and> Day t < DayFromYear (YearFromTime t + 1)"
proof -
  define y where "y = 1970 + (400 * Day t) div 146097"
  have lo: "DayFromYear (y - 1) \<le> Day t"
    unfolding y_def by (rule DayFromYear_estimate_lower)
  have up: "Day t < DayFromYear (y + 2)"
    unfolding y_def by (rule DayFromYear_estimate_upper)
  have yr: "YearFromTime t =
      (if DayFromYear (y + 1) \<le> Day t then y + 1
       else if DayFromYear y \<le> Day t then y else y - 1)"
    by (simp add: YearFromTime_def Let_def y_def)
  have two: "y + 1 + 1 = y + 2" by simp
  show ?thesis
    unfolding yr using lo up by (simp add: two)
qed

lemma DayFromYear_step: "DayFromYear y < DayFromYear (y + 1)"
proof -
  have a: "(y - 1969) div 4 \<le> (y - 1968) div 4"
    by (rule zdiv_mono1) simp_all
  have "(y - 1900) div 100 \<le> (y - 1901 + 100) div 100"
    by (rule zdiv_mono1) simp_all
  then have b: "(y - 1900) div 100 \<le> (y - 1901) div 100 + 1"
    by simp
  have c: "(y - 1601) div 400 \<le> (y - 1600) div 400"
    by (rule zdiv_mono1) simp_all
  have 1: "DayFromYear (y + 1) =
      365 * y - 718685 + (y - 1968) div 4 - (y - 1900) div 100 + (y - 1600) div 400"
    by (simp add: DayFromYear_def)
  have 0: "DayFromYear y =
      365 * y - 719050 + (y - 1969) div 4 - (y - 1901) div 100 + (y - 1601) div 400"
    by (simp add: DayFromYear_def)
  from a b c show ?thesis
    unfolding 0 1 by linarith
qed

lemma DayFromYear_mono:
  assumes "y \<le> y'"
  shows "DayFromYear y \<le> DayFromYear y'"
  using assms
proof (induction y' rule: int_ge_induct)
  case base
  show ?case by simp
next
  case (step i)
  with DayFromYear_step [of i] show ?case by linarith
qed

lemma YearFromTime_largest:
  "TimeFromYear (YearFromTime t) \<le> t \<and> (\<forall>y. TimeFromYear y \<le> t \<longrightarrow> y \<le> YearFromTime t)"
proof (intro conjI allI impI)
  have "msPerDay * DayFromYear (YearFromTime t) \<le> msPerDay * Day t"
    using YearFromTime_bounds [of t] by (simp add: msPerDay_def)
  also have "\<dots> \<le> t"
    unfolding Day_def by (rule div_bounds) (simp add: msPerDay_def)
  finally show "TimeFromYear (YearFromTime t) \<le> t"
    by (simp add: TimeFromYear_def)
next
  fix y
  assume a: "TimeFromYear y \<le> t"
  show "y \<le> YearFromTime t"
  proof (rule ccontr)
    assume "\<not> y \<le> YearFromTime t"
    then have "YearFromTime t + 1 \<le> y" by simp
    from DayFromYear_mono [OF this] YearFromTime_bounds [of t]
    have "Day t + 1 \<le> DayFromYear y" by linarith
    then have "msPerDay * (Day t + 1) \<le> msPerDay * DayFromYear y"
      by (simp add: msPerDay_def)
    moreover have "t < msPerDay * (t div msPerDay) + msPerDay"
      by (rule div_bounds) (simp add: msPerDay_def)
    ultimately show False
      using a by (simp add: TimeFromYear_def Day_def algebra_simps)
  qed
qed

text \<open>The decimal rendering can be read back, and consists of digits only.\<close>

lemma digit_value_digit:
  assumes "n < 10"
  shows "digit_value (''0123456789'' ! n) = n"
proof -
  have "list_all (\<lambda>i. digit_value (''0123456789'' ! i) = i) [0..<10]"
    by (simp add: upt_rec digit_value_def)
  moreover from assms have "n \<in> set [0..<10]"
    by simp
  ultimately show ?thesis
    unfolding list_all_iff by blast
qed

lemma digit_is_digit: "n < 10 \<Longrightarrow> ''0123456789'' ! n \<in> set ''0123456789''"
  by (rule nth_mem) simp

lemma decimal_value_snoc:
  "decimal_value (s @ [c]) = 10 * decimal_value s + digit_value c"
  by (simp add: decimal_value_def)

lemma decimal_value_decimal: "decimal_value (decimal n) = n"
proof (induction n rule: decimal.induct)
  case (1 n)
  show ?case
  proof (cases "n < 10")
    case True
    then show ?thesis
      by (subst decimal.simps) (simp add: decimal_value_def digit_value_digit)
  next
    case False
    with 1 have "decimal_value (decimal (n div 10)) = n div 10" by simp
    with False show ?thesis
      by (subst decimal.simps) (simp add: decimal_value_snoc digit_value_digit)
  qed
qed

lemma set_decimal: "set (decimal n) \<subseteq> set ''0123456789''"
proof (induction n rule: decimal.induct)
  case (1 n)
  show ?case
  proof (cases "n < 10")
    case True
    with digit_is_digit [of n] show ?thesis
      by (subst decimal.simps) simp
  next
    case False
    with 1 have "set (decimal (n div 10)) \<subseteq> set ''0123456789''" by simp
    moreover have "''0123456789'' ! (n mod 10) \<in> set ''0123456789''"
      by (rule digit_is_digit) simp
    ultimately show ?thesis
      using False by (subst decimal.simps) simp
  qed
qed

lemma decimal_not_Nil: "decimal n \<noteq> []"
  by (subst decimal.simps) simp

lemma decimal_value_zeros: "decimal_value (replicate k CHR ''0'' @ s) = decimal_value s"
proof -
  have "foldl (\<lambda>acc c. 10 * acc + digit_value c) 0 (replicate k CHR ''0'') = 0"
    by (induction k) (simp_all add: digit_value_def)
  then show ?thesis
    by (simp add: decimal_value_def)
qed

lemma decimal_value_padded: "decimal_value (ToZeroPaddedDecimalString n k) = n"
  by (simp add: ToZeroPaddedDecimalString_def decimal_value_zeros decimal_value_decimal)

lemma set_padded: "set (ToZeroPaddedDecimalString n k) \<subseteq> set ''0123456789''"
  using set_decimal [of n] by (auto simp: ToZeroPaddedDecimalString_def)

lemma padded_not_Nil: "ToZeroPaddedDecimalString n k \<noteq> []"
  by (simp add: ToZeroPaddedDecimalString_def decimal_not_Nil)

lemma append_sep_eq:
  assumes "c \<notin> set xs" "c \<notin> set xs'" "xs @ c # ys = xs' @ c # ys'"
  shows "xs = xs' \<and> ys = ys'"
  using assms
proof (induction xs arbitrary: xs')
  case Nil
  then show ?case by (cases xs') auto
next
  case (Cons x xs)
  then show ?case by (cases xs') auto
qed

text \<open>
  The string of \<^verbatim>\<open>toDateString\<close> determines the calendar date and is determined by it, and
  it is never the string of an invalid date.
\<close>

lemma WeekDay_range: "0 \<le> WeekDay t \<and> WeekDay t < 7"
  by (simp add: WeekDay_def)

lemma MonthFromTime_range: "0 \<le> MonthFromTime t \<and> MonthFromTime t \<le> 11"
  by (simp add: MonthFromTime_def Let_def)

lemma DayWithinYear_nonneg: "0 \<le> DayWithinYear t"
  using YearFromTime_bounds [of t] by (simp add: DayWithinYear_def)

lemma InLeapYear_range: "InLeapYear t = 0 \<or> InLeapYear t = 1"
  by (simp add: InLeapYear_def)

lemma DateFromTime_pos: "1 \<le> DateFromTime t"
proof -
  define d where "d = DayWithinYear t"
  define leap where "leap = InLeapYear t"
  have d: "0 \<le> d" unfolding d_def by (rule DayWithinYear_nonneg)
  have l: "leap = 0 \<or> leap = 1" unfolding leap_def by (rule InLeapYear_range)
  have m: "MonthFromTime t =
      (if d < 31 then 0
         else if d < 59 + leap then 1
         else if d < 90 + leap then 2
         else if d < 120 + leap then 3
         else if d < 151 + leap then 4
         else if d < 181 + leap then 5
         else if d < 212 + leap then 6
         else if d < 243 + leap then 7
         else if d < 273 + leap then 8
         else if d < 304 + leap then 9
         else if d < 334 + leap then 10
         else 11)"
    by (simp add: MonthFromTime_def Let_def d_def leap_def)
  have "DateFromTime t =
      (let m = MonthFromTime t
       in if m = 0 then d + 1
         else if m = 1 then d - 30
         else if m = 2 then d - 58 - leap
         else if m = 3 then d - 89 - leap
         else if m = 4 then d - 119 - leap
         else if m = 5 then d - 150 - leap
         else if m = 6 then d - 180 - leap
         else if m = 7 then d - 211 - leap
         else if m = 8 then d - 242 - leap
         else if m = 9 then d - 272 - leap
         else if m = 10 then d - 303 - leap
         else d - 333 - leap)"
    by (simp add: DateFromTime_def Let_def d_def leap_def)
  then show ?thesis
    unfolding m Let_def using d l by (auto split: if_splits)
qed

lemma length_weekdayName:
  assumes "0 \<le> w" "w < 7"
  shows "length (weekdayName w) = 3"
proof -
  let ?names = "[''Sun'', ''Mon'', ''Tue'', ''Wed'', ''Thu'', ''Fri'', ''Sat'']"
  have "\<forall>s \<in> set ?names. length s = 3" by simp
  moreover from assms have "?names ! nat w \<in> set ?names"
    by (intro nth_mem) simp
  ultimately show ?thesis
    unfolding weekdayName_def by blast
qed

lemma length_monthName:
  assumes "0 \<le> m" "m \<le> 11"
  shows "length (monthName m) = 3"
proof -
  let ?names = "[''Jan'', ''Feb'', ''Mar'', ''Apr'', ''May'', ''Jun'',
      ''Jul'', ''Aug'', ''Sep'', ''Oct'', ''Nov'', ''Dec'']"
  have "\<forall>s \<in> set ?names. length s = 3" by simp
  moreover from assms have "?names ! nat m \<in> set ?names"
    by (intro nth_mem) simp
  ultimately show ?thesis
    unfolding monthName_def by blast
qed

lemma monthName_inj:
  assumes "0 \<le> m" "m \<le> 11" "0 \<le> m'" "m' \<le> 11" "monthName m = monthName m'"
  shows "m = m'"
proof -
  let ?names = "[''Jan'', ''Feb'', ''Mar'', ''Apr'', ''May'', ''Jun'',
      ''Jul'', ''Aug'', ''Sep'', ''Oct'', ''Nov'', ''Dec'']"
  have "distinct ?names" by simp
  moreover have "nat m < length ?names" "nat m' < length ?names"
    using assms by simp_all
  ultimately have "nat m = nat m'"
    using assms(5) unfolding monthName_def by (simp only: nth_eq_iff_index_eq)
  with assms show ?thesis by simp
qed

lemma minus_not_digit: "CHR ''-'' \<notin> set ''0123456789''" and space_not_digit: "CHR '' '' \<notin> set ''0123456789''"
  by simp_all

lemma yearString_inj:
  assumes "(if y \<ge> 0 then [] else ''-'') @ ToZeroPaddedDecimalString (nat \<bar>y\<bar>) 4 =
           (if y' \<ge> 0 then [] else ''-'') @ ToZeroPaddedDecimalString (nat \<bar>y'\<bar>) 4"
  shows "y = (y' :: int)"
proof -
  let ?p = "ToZeroPaddedDecimalString (nat \<bar>y\<bar>) 4"
  let ?p' = "ToZeroPaddedDecimalString (nat \<bar>y'\<bar>) 4"
  have no_minus: "\<And>n k. ToZeroPaddedDecimalString n k \<noteq> CHR ''-'' # s" for s
  proof
    fix n k
    assume "ToZeroPaddedDecimalString n k = CHR ''-'' # s"
    then have "CHR ''-'' \<in> set (ToZeroPaddedDecimalString n k)" by simp
    with set_padded [of n k] minus_not_digit show False by blast
  qed
  have sign: "(y \<ge> 0) = (y' \<ge> 0)"
  proof (rule ccontr)
    assume "(y \<ge> 0) \<noteq> (y' \<ge> 0)"
    then consider "y \<ge> 0" "\<not> y' \<ge> 0" | "\<not> y \<ge> 0" "y' \<ge> 0" by blast
    then show False
    proof cases
      case 1
      with assms have "?p = CHR ''-'' # ?p'" by simp
      with no_minus show False by blast
    next
      case 2
      with assms have "?p' = CHR ''-'' # ?p" by simp
      with no_minus show False by blast
    qed
  qed
  with assms have "?p = ?p'" by (simp split: if_splits)
  then have "decimal_value ?p = decimal_value ?p'" by simp
  then have "nat \<bar>y\<bar> = nat \<bar>y'\<bar>" by (simp only: decimal_value_padded)
  with sign show ?thesis by linarith
qed

lemma DateString_inj:
  assumes "DateString t = DateString t'"
  shows "MonthFromTime t = MonthFromTime t' \<and> DateFromTime t = DateFromTime t' \<and>
         YearFromTime t = YearFromTime t'"
proof -
  define W where "W = weekdayName (WeekDay t)"
  define W' where "W' = weekdayName (WeekDay t')"
  define M where "M = monthName (MonthFromTime t)"
  define M' where "M' = monthName (MonthFromTime t')"
  define D where "D = ToZeroPaddedDecimalString (nat (DateFromTime t)) 2"
  define D' where "D' = ToZeroPaddedDecimalString (nat (DateFromTime t')) 2"
  define Y where "Y = (if YearFromTime t \<ge> 0 then [] else ''-'') @
                      ToZeroPaddedDecimalString (nat \<bar>YearFromTime t\<bar>) 4"
  define Y' where "Y' = (if YearFromTime t' \<ge> 0 then [] else ''-'') @
                      ToZeroPaddedDecimalString (nat \<bar>YearFromTime t'\<bar>) 4"
  have s: "DateString t = W @ (CHR '' '' # (M @ (CHR '' '' # (D @ CHR '' '' # Y))))"
    by (simp add: DateString_def Let_def W_def M_def D_def Y_def)
  have s': "DateString t' = W' @ (CHR '' '' # (M' @ (CHR '' '' # (D' @ CHR '' '' # Y'))))"
    by (simp add: DateString_def Let_def W'_def M'_def D'_def Y'_def)
  have lw: "length W = length W'"
    unfolding W_def W'_def using WeekDay_range [of t] WeekDay_range [of t']
    by (simp add: length_weekdayName)
  have lm: "length M = length M'"
    unfolding M_def M'_def using MonthFromTime_range [of t] MonthFromTime_range [of t']
    by (simp add: length_monthName)
  from assms have "W @ (CHR '' '' # (M @ (CHR '' '' # (D @ CHR '' '' # Y)))) =
                   W' @ (CHR '' '' # (M' @ (CHR '' '' # (D' @ CHR '' '' # Y'))))"
    unfolding s s' .
  with lw have 1: "M @ (CHR '' '' # (D @ CHR '' '' # Y)) = M' @ (CHR '' '' # (D' @ CHR '' '' # Y'))"
    by simp
  with lm have m: "M = M'" and 2: "D @ CHR '' '' # Y = D' @ CHR '' '' # Y'"
    by simp_all
  have "CHR '' '' \<notin> set D" "CHR '' '' \<notin> set D'"
    unfolding D_def D'_def using set_padded space_not_digit by blast+
  from append_sep_eq [OF this 2] have d: "D = D'" and y: "Y = Y'" by simp_all
  from m have "MonthFromTime t = MonthFromTime t'"
    unfolding M_def M'_def using MonthFromTime_range [of t] MonthFromTime_range [of t']
    by (intro monthName_inj) simp_all
  moreover from d have "decimal_value D = decimal_value D'" by simp
  then have "nat (DateFromTime t) = nat (DateFromTime t')"
    unfolding D_def D'_def by (simp only: decimal_value_padded)
  with DateFromTime_pos [of t] DateFromTime_pos [of t']
  have "DateFromTime t = DateFromTime t'" by linarith
  moreover from y have "YearFromTime t = YearFromTime t'"
    unfolding Y_def Y'_def by (rule yearString_inj)
  ultimately show ?thesis by blast
qed

lemma DateString_Day:
  assumes "Day t = Day t'"
  shows "DateString t = DateString t'"
proof -
  have y: "YearFromTime t = YearFromTime t'"
    using assms by (simp add: YearFromTime_def)
  then have l: "InLeapYear t = InLeapYear t'" and w: "DayWithinYear t = DayWithinYear t'"
    using assms by (simp_all add: InLeapYear_def DayWithinYear_def)
  then have m: "MonthFromTime t = MonthFromTime t'"
    by (simp add: MonthFromTime_def)
  with l w have d: "DateFromTime t = DateFromTime t'"
    by (simp add: DateFromTime_def)
  have "WeekDay t = WeekDay t'"
    using assms by (simp add: WeekDay_def)
  with y m d show ?thesis
    by (simp add: DateString_def)
qed

lemma Day_of_date:
  assumes "YearFromTime t = YearFromTime t'" "MonthFromTime t = MonthFromTime t'"
    "DateFromTime t = DateFromTime t'"
  shows "Day t = Day t'"
proof -
  have l: "InLeapYear t = InLeapYear t'"
    using assms(1) by (simp add: InLeapYear_def)
  have "DayWithinYear t = DayWithinYear t'"
    using assms(3) unfolding DateFromTime_def Let_def assms(2) l
    by (simp split: if_splits)
  with assms(1) show ?thesis
    by (simp add: DayWithinYear_def)
qed

lemma DateString_eq_iff:
  "DateString t = DateString t' \<longleftrightarrow>
     (YearFromTime t, MonthFromTime t, DateFromTime t) =
     (YearFromTime t', MonthFromTime t', DateFromTime t')"
  using DateString_inj [of t t'] DateString_Day [of t t'] Day_of_date [of t t']
  by auto

lemma DateString_not_Invalid: "DateString t \<noteq> ''Invalid Date''"
proof
  assume a: "DateString t = ''Invalid Date''"
  define W where "W = weekdayName (WeekDay t)"
  obtain r where s: "DateString t = W @ CHR '' '' # r"
    by (simp add: DateString_def Let_def W_def)
  have "length W = 3"
    unfolding W_def using WeekDay_range [of t] by (simp add: length_weekdayName)
  then have "DateString t ! 3 = CHR '' ''"
    unfolding s by (simp add: nth_append)
  with a show False by simp
qed

lemma toDateString_eq_iff:
  "toDateString LocalTZA (Some t) = toDateString LocalTZA (Some t') \<longleftrightarrow>
     localDate LocalTZA t = localDate LocalTZA t'"
  by (simp add: toDateString_def localDate_def Let_def DateString_eq_iff)

lemma toDateString_Invalid:
  "toDateString LocalTZA None \<noteq> toDateString LocalTZA (Some t)"
  using DateString_not_Invalid [of "LocalTime LocalTZA t"]
  by (simp add: toDateString_def)

text \<open>Dates as JavaScript prints them, among them a leap day and a day before 1970.\<close>

lemma DateString_examples:
  "DateString 0 = ''Thu Jan 01 1970''"
  "DateString 1704153540000 = ''Mon Jan 01 2024''"
  "DateString 951782400000 = ''Tue Feb 29 2000''"
  "DateString (- 1) = ''Wed Dec 31 1969''"
  by code_simp+

text \<open>
  Claim C3. \<^verbatim>\<open>canCheckinToday\<close> is true when there is no user or no last check-in, for every
  \<open>now\<close>. When the last check-in parses to a time value, it is false exactly when that time
  and \<open>now\<close> fall on the same calendar date of local time (year, month, day of the month)
  and true when the two dates differ, however little time lies between them. A last
  check-in that is empty or does not parse allows the check-in as well.
\<close>

theorem canCheckinToday_calendar_date:
  "canCheckinToday Date_parse LocalTZA now None \<and>
   (last_checkin u = None \<longrightarrow> canCheckinToday Date_parse LocalTZA now (Some u)) \<and>
   (last_checkin u = Some s \<and> s \<noteq> [] \<and> Date_parse s = Some t \<longrightarrow>
      canCheckinToday Date_parse LocalTZA now (Some u) =
        (localDate LocalTZA t \<noteq> localDate LocalTZA now)) \<and>
   (last_checkin u = Some s \<and> (s = [] \<or> Date_parse s = None) \<longrightarrow>
      canCheckinToday Date_parse LocalTZA now (Some u))"
proof (intro conjI impI)
  show "canCheckinToday Date_parse LocalTZA now None"
    by (simp add: canCheckinToday_def)
next
  assume "last_checkin u = None"
  then show "canCheckinToday Date_parse LocalTZA now (Some u)"
    by (simp add: canCheckinToday_def)
next
  assume "last_checkin u = Some s \<and> s \<noteq> [] \<and> Date_parse s = Some t"
  then show "canCheckinToday Date_parse LocalTZA now (Some u) =
        (localDate LocalTZA t \<noteq> localDate LocalTZA now)"
    by (simp add: canCheckinToday_def Let_def toDateString_eq_iff)
next
  assume "last_checkin u = Some s \<and> (s = [] \<or> Date_parse s = None)"
  then show "canCheckinToday Date_parse LocalTZA now (Some u)"
    by (auto simp: canCheckinToday_def Let_def toDateString_Invalid)
qed

text \<open>
  In UTC: 2024-01-01T23:59:00 and 2024-01-02T00:01:00 are two minutes apart and on
  different dates; 2024-01-01T23:59:00 and 2024-01-01T00:01:00 are on the same date.
\<close>

lemma localDate_example_1: "localDate (\<lambda>t. 0) 1704153540000 = (2024, 0, 1)"
  by code_simp

lemma localDate_example_2: "localDate (\<lambda>t. 0) 1704153660000 = (2024, 0, 2)"
  by code_simp

lemma localDate_example_3: "localDate (\<lambda>t. 0) 1704067260000 = (2024, 0, 1)"
  by code_simp

theorem canCheckinToday_calendar_date_witness:
  "canCheckinToday
     (\<lambda>s. if s = ''2024-01-01T23:59:00.000Z'' then Some 1704153540000 else None)
     (\<lambda>t. 0) 1704153660000
     (Some (example_user\<lparr>last_checkin := Some ''2024-01-01T23:59:00.000Z''\<rparr>)) \<and>
   1704153660000 - 1704153540000 < msPerDay \<and>
   \<not> canCheckinToday
     (\<lambda>s. if s = ''2024-01-01T23:59:00.000Z'' then Some 1704153540000 else None)
     (\<lambda>t. 0) 1704067260000
     (Some (example_user\<lparr>last_checkin := Some ''2024-01-01T23:59:00.000Z''\<rparr>)) \<and>
   canCheckinToday
     (\<lambda>s. if s = ''2024-01-01T23:59:00.000Z'' then Some 1704153540000 else None)
     (\<lambda>t. 0) 1704067260000 (Some example_user) \<and>
   canCheckinToday
     (\<lambda>s. if s = ''2024-01-01T23:59:00.000Z'' then Some 1704153540000 else None)
     (\<lambda>t. 0) 1704067260000 (Some (example_user\<lparr>last_checkin := Some ''yesterday''\<rparr>))"
proof -
  let ?s = "''2024-01-01T23:59:00.000Z''"
  let ?u = "example_user\<lparr>last_checkin := Some ?s\<rparr>"
  let ?v = "example_user\<lparr>last_checkin := Some ''yesterday''\<rparr>"
  let ?parse = "\<lambda>s::string. if s = ?s then Some (1704153540000::int) else None"
  let ?tz = "\<lambda>t::int. 0::int"
  have l: "last_checkin ?u = Some ?s" and n: "?s \<noteq> []"
    and p: "?parse ?s = Some 1704153540000"
    by simp_all
  have 1: "canCheckinToday ?parse ?tz 1704153660000 (Some ?u)"
    using canCheckinToday_calendar_date [of ?parse ?tz 1704153660000 ?u ?s 1704153540000] l n p
    by (simp add: localDate_example_1 localDate_example_2)
  have 2: "\<not> canCheckinToday ?parse ?tz 1704067260000 (Some ?u)"
    using canCheckinToday_calendar_date [of ?parse ?tz 1704067260000 ?u ?s 1704153540000] l n p
    by (simp add: localDate_example_1 localDate_example_3)
  have "last_checkin example_user = None"
    by (simp add: example_user_def)
  with canCheckinToday_calendar_date [of ?parse ?tz 1704067260000 example_user ?s 0]
  have 3: "canCheckinToday ?parse ?tz 1704067260000 (Some example_user)"
    by blast
  have "last_checkin ?v = Some ''yesterday''" "?parse ''yesterday'' = None"
    by simp_all
  with canCheckinToday_calendar_date [of ?parse ?tz 1704067260000 ?v "''yesterday''" 0]
  have 4: "canCheckinToday ?parse ?tz 1704067260000 (Some ?v)"
    by blast
  have 5: "(1704153660000::int) - 1704153540000 < msPerDay"
    by (simp add: msPerDay_def)
  from 1 2 3 4 5 show ?thesis by blast
qed

end
